theory Spec2Isabelle
  imports Complex_Main "HOL-Library.AList" "HOL-Library.Multiset" "HOL-Library.Log_Nat"
begin

section \<open>Milestara: governance tokens, votes and the funding ledger\<close>

text \<open>
  The repository has two voting paths. \<^verbatim>\<open>services/milestoneContract.js\<close> keeps a
  single user's token balance, the locked amount and the per-milestone tallies in the
  browser's localStorage (\<^verbatim>\<open>fundMilestoneContract\<close>, \<^verbatim>\<open>castVote\<close>,
  \<^verbatim>\<open>releaseMilestoneFunds\<close> and the getters). \<^verbatim>\<open>lib/db/*.js\<close> keeps users,
  milestones, votes and transactions in Postgres behind the Supabase client
  (\<^verbatim>\<open>voteOnMilestone\<close>, \<^verbatim>\<open>hasUserVoted\<close>, \<^verbatim>\<open>updateMilestoneStatus\<close>,
  \<^verbatim>\<open>getProjectFundingTotal\<close>), with the constraints of \<^verbatim>\<open>lib/schema.sql\<close>.

  Conventions of the embedding.
  \<^item> A function returns \<open>(error + result) \<times> state\<close>: the state is returned on the error
    path too, since a JavaScript function may have written before it throws. The
    getters of the localStorage state, which have no \<^verbatim>\<open>throw\<close> and no write, return
    their value.
  \<^item> JavaScript numbers holding token counts and vote weights are \<open>int\<close>. Numbers
    holding BCH amounts, quotients and percentages are IEEE 754 doubles: rationals
    rounded by \<open>double\<close> after every operation.
  \<^item> An id argument is a \<open>string option\<close>; \<open>None\<close> is \<^verbatim>\<open>undefined\<close> or
    \<^verbatim>\<open>null\<close>, which \<^verbatim>\<open>!id\<close> does not tell apart.
  \<^item> What an external collaborator answers (the wallet's \<^verbatim>\<open>send\<close>, a failing store
    request) is an argument of the function that asks.
\<close>

subsection \<open>IEEE 754 double precision\<close>

text \<open>
  A finite double is a rational \<open>m * 2 ^ (e - 52)\<close> with \<open>\<bar>m\<bar> < 2 ^ 53\<close> and
  \<open>e \<ge> - 1022\<close>. \<open>double x\<close> is the double nearest to \<open>x\<close>, a tie going to the even
  significand (round to nearest, ties to even, the rounding of every JavaScript
  operation and of the reading of a decimal numeral); below \<open>2 ^ - 1022\<close> the spacing
  stays \<open>2 ^ - 1074\<close> (subnormal numbers). Overflow to \<^verbatim>\<open>Infinity\<close> beyond
  \<open>2 ^ 1024\<close> and \<^verbatim>\<open>NaN\<close> are outside the model: the statements about amounts
  carry bounds.
\<close>

definition pow2 :: "int \<Rightarrow> rat" where
  "pow2 e = (if e \<ge> 0 then 2 ^ nat e else 1 / 2 ^ nat (- e))"

text \<open>The binary exponent of a positive rational: \<open>2 ^ ilog2 x \<le> x < 2 ^ (ilog2 x + 1)\<close>.\<close>

definition ilog2 :: "rat \<Rightarrow> int" where
  "ilog2 x = (if x \<ge> 1 then bitlen \<lfloor>x\<rfloor> - 1 else - bitlen (\<lceil>1 / x\<rceil> - 1))"

text \<open>Rounding to the nearest integer, a tie going to the even one.\<close>

definition rne :: "rat \<Rightarrow> int" where
  "rne y =
     (let f = \<lfloor>y\<rfloor>; r = y - of_int f
      in if r < 1 / 2 then f else if r > 1 / 2 then f + 1 else if even f then f else f + 1)"

definition double :: "rat \<Rightarrow> rat" where
  "double x =
     (if x = 0 then 0
      else
        let a = \<bar>x\<bar>; e = max (ilog2 a) (- 1022); q = pow2 (e - 52)
        in sgn x * (of_int (rne (a / q)) * q))"

text \<open>The JavaScript operators \<^verbatim>\<open>+\<close>, \<^verbatim>\<open>-\<close>, \<^verbatim>\<open>*\<close> and \<^verbatim>\<open>/\<close> on doubles.\<close>

definition dadd :: "rat \<Rightarrow> rat \<Rightarrow> rat" where
  "dadd a b = double (a + b)"

definition dsub :: "rat \<Rightarrow> rat \<Rightarrow> rat" where
  "dsub a b = double (a - b)"

definition dmul :: "rat \<Rightarrow> rat \<Rightarrow> rat" where
  "dmul a b = double (a * b)"

definition ddiv :: "rat \<Rightarrow> rat \<Rightarrow> rat" where
  "ddiv a b = double (a / b)"

text \<open>
  \<^verbatim>\<open>Math.round\<close> of a double: the nearest integer, a half rounding up; it is computed
  on the exact value of the double.
\<close>

definition Math_round :: "rat \<Rightarrow> int" where
  "Math_round x = \<lfloor>x + 1 / 2\<rfloor>"

text \<open>The integers that doubles hold exactly together with their sums.\<close>

definition safe_int :: "int \<Rightarrow> bool" where
  "safe_int k = (\<bar>k\<bar> \<le> 2 ^ 52)"

subsection \<open>Errors\<close>

text \<open>
  Every \<^verbatim>\<open>throw new Error(...)\<close> of the modelled functions, named after the spec's
  taxonomy, and the \<^verbatim>\<open>TypeError\<close> of a property read on \<^verbatim>\<open>null\<close>. \<open>NotApproved\<close>
  is in the taxonomy; no function of the source throws it.
\<close>

datatype error =
    Required string              \<comment> \<open>\<^verbatim>\<open>'<field> is required'\<close>\<close>
  | InvalidVote                  \<comment> \<open>\<^verbatim>\<open>'vote must be a boolean (true=YES, false=NO)'\<close>\<close>
  | InvalidWeight                \<comment> \<open>\<^verbatim>\<open>'votingPower must be at least 1'\<close>\<close>
  | DuplicateVote                \<comment> \<open>\<^verbatim>\<open>'You have already voted on this milestone.'\<close>\<close>
  | InvalidStatus                \<comment> \<open>\<^verbatim>\<open>'Invalid status. Must be one of: ...'\<close>\<close>
  | InvalidAmount                \<comment> \<open>\<^verbatim>\<open>'Fund at least 0.001 BCH to receive governance tokens'\<close>\<close>
  | InsufficientBalance int      \<comment> \<open>\<^verbatim>\<open>'Not enough tokens. You have ${currentBalance} GOV tokens.'\<close>\<close>
  | InsufficientLockedFunds rat  \<comment> \<open>\<^verbatim>\<open>'Cannot release ... Only ${locked} BCH is locked.'\<close>\<close>
  | NotApproved
  | NotConnected                 \<comment> \<open>\<^verbatim>\<open>'Connect your wallet to vote.'\<close>\<close>
  | StoreError string            \<comment> \<open>\<^verbatim>\<open>new Error(error.message)\<close> for an error of the store\<close>
  | LedgerError string           \<comment> \<open>a rejection of \<^verbatim>\<open>wallet.send\<close>, propagated as it is\<close>
  | TypeError                    \<comment> \<open>\<^verbatim>\<open>supabase.from\<close> when \<^verbatim>\<open>supabase\<close> is \<^verbatim>\<open>null\<close>\<close>

subsection \<open>milestoneContract.js: the localStorage state\<close>

text \<open>
  One localStorage key as \<^verbatim>\<open>loadFromStorage\<close> sees it: \<^verbatim>\<open>getItem\<close> gives
  \<^verbatim>\<open>null\<close> or the empty string (\<open>Missing\<close>, the falsy case), a text on which
  \<^verbatim>\<open>JSON.parse\<close> throws (\<open>Malformed\<close>), or the JSON text of a value of the type this
  program writes under the key (\<open>Stored\<close>).
\<close>

datatype 'a item = Missing | Malformed | Stored 'a

datatype js_exception = SyntaxError

text \<open>
  A field of a tally object \<^verbatim>\<open>{ yes, no }\<close>: a number, \<^verbatim>\<open>NaN\<close>, \<^verbatim>\<open>null\<close>, or
  no such field (\<^verbatim>\<open>undefined\<close>). The program starts every tally at
  \<^verbatim>\<open>{ yes: 0, no: 0 }\<close>; the other three arise when a milestone id is the name of a
  member of \<^verbatim>\<open>Object.prototype\<close>.
\<close>

datatype jsnum = Num int | NaN | Null | Undefined

record tally =
  yes :: jsnum
  no :: jsnum

datatype vote_type = YES | NO

text \<open>\<^verbatim>\<open>ToNumber\<close> (\<open>None\<close> is \<^verbatim>\<open>NaN\<close>) and the operator \<^verbatim>\<open>+\<close> on such fields.\<close>

definition to_number :: "jsnum \<Rightarrow> int option" where
  "to_number v = (case v of Num n \<Rightarrow> Some n | Null \<Rightarrow> Some 0 | NaN \<Rightarrow> None | Undefined \<Rightarrow> None)"

definition js_plus :: "jsnum \<Rightarrow> jsnum \<Rightarrow> jsnum" where
  "js_plus a b =
     (case (to_number a, to_number b) of
        (Some x, Some y) \<Rightarrow> Num (x + y)
      | _ \<Rightarrow> NaN)"

text \<open>
  What \<^verbatim>\<open>JSON.parse(JSON.stringify(t))\<close> makes of a tally: \<^verbatim>\<open>NaN\<close> is written as
  \<^verbatim>\<open>null\<close>, an undefined field is left out.
\<close>

definition json_field :: "jsnum \<Rightarrow> jsnum" where
  "json_field v = (case v of NaN \<Rightarrow> Null | _ \<Rightarrow> v)"

definition json_tally :: "tally \<Rightarrow> tally" where
  "json_tally t = \<lparr>yes = json_field (yes t), no = json_field (no t)\<rparr>"

text \<open>
  The keys of \<^verbatim>\<open>STORAGE_KEYS\<close> that the program writes. The votes object
  \<^verbatim>\<open>{ milestoneId: { yes, no } }\<close> is the association list of its own properties.
\<close>

record local_storage =
  tokenBalance :: "int item"
  votes :: "(string \<times> tally) list item"
  lockedAmount :: "rat item"
  tokenCategory :: "string item"

text \<open>
  The body of the \<^verbatim>\<open>try\<close> block of \<^verbatim>\<open>loadFromStorage\<close>:
  \<^verbatim>\<open>item ? JSON.parse(item) : defaultValue\<close>.
\<close>

definition parse_item :: "'a item \<Rightarrow> 'a \<Rightarrow> js_exception + 'a" where
  "parse_item it defaultValue =
     (case it of
        Missing \<Rightarrow> Inr defaultValue
      | Malformed \<Rightarrow> Inl SyntaxError
      | Stored v \<Rightarrow> Inr v)"

text \<open>\<^verbatim>\<open>loadFromStorage(key, defaultValue)\<close>: the \<^verbatim>\<open>catch\<close> returns the default.\<close>

definition loadFromStorage :: "'a item \<Rightarrow> 'a \<Rightarrow> 'a" where
  "loadFromStorage it defaultValue =
     (case parse_item it defaultValue of
        Inl _ \<Rightarrow> defaultValue
      | Inr v \<Rightarrow> v)"

text \<open>
  A property read \<^verbatim>\<open>obj[key]\<close> on a plain object: an own property, else a member
  inherited from \<^verbatim>\<open>Object.prototype\<close>, else \<^verbatim>\<open>undefined\<close>.
\<close>

definition Object_prototype_names :: "string list" where
  "Object_prototype_names =
     [''constructor'', ''__defineGetter__'', ''__defineSetter__'', ''hasOwnProperty'',
      ''__lookupGetter__'', ''__lookupSetter__'', ''isPrototypeOf'', ''propertyIsEnumerable'',
      ''toString'', ''valueOf'', ''__proto__'', ''toLocaleString'']"

datatype 'a property = Own 'a | Inherited | NoProperty

definition js_get :: "(string \<times> 'a) list \<Rightarrow> string \<Rightarrow> 'a property" where
  "js_get obj key =
     (case map_of obj key of
        Some v \<Rightarrow> Own v
      | None \<Rightarrow> if List.member Object_prototype_names key then Inherited else NoProperty)"

text \<open>
  The approval test both paths share, \<^verbatim>\<open>total > 0 && (yes / total) > 0.5\<close>, on
  integers, and the percentage
  \<^verbatim>\<open>total > 0 ? Math.round((yes / total) * 100) : 0\<close>, whose quotient and product are
  doubles.
\<close>

definition APPROVAL_THRESHOLD :: rat where
  "APPROVAL_THRESHOLD = 1 / 2"

definition is_approved :: "int \<Rightarrow> int \<Rightarrow> bool" where
  "is_approved yesWeight total_w =
     (total_w > 0 \<and> (of_int yesWeight / of_int total_w :: rat) > APPROVAL_THRESHOLD)"

definition yes_percent :: "int \<Rightarrow> int \<Rightarrow> int" where
  "yes_percent yesWeight total_w =
     (if total_w > 0 then Math_round (dmul (ddiv (of_int yesWeight) (of_int total_w)) 100) else 0)"

text \<open>The same two on tally fields: a total that is \<^verbatim>\<open>NaN\<close> is not \<^verbatim>\<open>> 0\<close>.\<close>

definition js_approved :: "jsnum \<Rightarrow> jsnum \<Rightarrow> bool" where
  "js_approved y t =
     (case (to_number y, to_number t) of
        (Some yn, Some tn) \<Rightarrow> is_approved yn tn
      | _ \<Rightarrow> False)"

definition js_percent :: "jsnum \<Rightarrow> jsnum \<Rightarrow> int" where
  "js_percent y t =
     (case (to_number y, to_number t) of
        (Some yn, Some tn) \<Rightarrow> yes_percent yn tn
      | _ \<Rightarrow> 0)"

subsubsection \<open>Getters\<close>

text \<open>
  \<^verbatim>\<open>JSON.parse\<close> reads the stored numeral of the locked amount as the nearest
  double.
\<close>

definition getTokenBalance :: "local_storage \<Rightarrow> int" where
  "getTokenBalance ls = loadFromStorage (tokenBalance ls) 0"

definition getLockedAmount :: "local_storage \<Rightarrow> rat" where
  "getLockedAmount ls = double (loadFromStorage (lockedAmount ls) 0)"

definition zero_tally :: tally where
  "zero_tally = \<lparr>yes = Num 0, no = Num 0\<rparr>"

text \<open>
  The value of \<^verbatim>\<open>allVotes[milestoneId] || { yes: 0, no: 0 }\<close>: a tally, or the
  member of \<^verbatim>\<open>Object.prototype\<close> of that name (a function, or the prototype itself
  for \<^verbatim>\<open>'__proto__'\<close>), which is truthy.
\<close>

datatype votes_value = TallyValue tally | PrototypeMember string

definition votes_or_zero :: "(string \<times> tally) list \<Rightarrow> string \<Rightarrow> votes_value" where
  "votes_or_zero allVotes milestoneId =
     (case js_get allVotes milestoneId of
        Own v \<Rightarrow> TallyValue v
      | Inherited \<Rightarrow> PrototypeMember milestoneId
      | NoProperty \<Rightarrow> TallyValue zero_tally)"

text \<open>
  The reads \<^verbatim>\<open>v.yes\<close> and \<^verbatim>\<open>v.no\<close>, and the spread \<^verbatim>\<open>{ ...v }\<close>: a member of
  \<^verbatim>\<open>Object.prototype\<close> has neither property and no enumerable property of its own.
\<close>

definition fields_of :: "votes_value \<Rightarrow> tally" where
  "fields_of v =
     (case v of
        TallyValue t \<Rightarrow> t
      | PrototypeMember _ \<Rightarrow> \<lparr>yes = Undefined, no = Undefined\<rparr>)"

definition getMilestoneVotes :: "local_storage \<Rightarrow> string \<Rightarrow> votes_value" where
  "getMilestoneVotes ls milestoneId =
     (let allVotes = loadFromStorage (votes ls) [] in votes_or_zero allVotes milestoneId)"

definition getAllVotes :: "local_storage \<Rightarrow> (string \<times> tally) list" where
  "getAllVotes ls = loadFromStorage (votes ls) []"

definition isMilestoneApproved :: "local_storage \<Rightarrow> string \<Rightarrow> bool" where
  "isMilestoneApproved ls milestoneId =
     (let v = fields_of (getMilestoneVotes ls milestoneId); total_w = js_plus (yes v) (no v)
      in js_approved (yes v) total_w)"

subsubsection \<open>castVote\<close>

record cast_result =
  cr_votes :: tally
  cr_tokenBalance :: int
  cr_isApproved :: bool
  cr_yesPercent :: int

text \<open>\<^verbatim>\<open>{ ...prevVotes, [voteType]: prevVotes[voteType] + tokensToUse }\<close>.\<close>

definition add_votes :: "tally \<Rightarrow> vote_type \<Rightarrow> int \<Rightarrow> tally" where
  "add_votes prevVotes voteType tokensToUse =
     (case voteType of
        YES \<Rightarrow> prevVotes\<lparr>yes := js_plus (yes prevVotes) (Num tokensToUse)\<rparr>
      | NO \<Rightarrow> prevVotes\<lparr>no := js_plus (no prevVotes) (Num tokensToUse)\<rparr>)"

text \<open>
  The assignment \<^verbatim>\<open>allVotes[milestoneId] = updatedVotes\<close>: it writes an own
  property, except for the key \<^verbatim>\<open>'__proto__'\<close> on an object that has no own property
  of that name, where the inherited setter replaces the prototype and the object keeps
  its own properties. The order of the list plays no part in what the functions
  compute.
\<close>

definition js_set :: "(string \<times> 'a) list \<Rightarrow> string \<Rightarrow> 'a \<Rightarrow> (string \<times> 'a) list" where
  "js_set obj key v =
     (if key = ''__proto__'' \<and> map_of obj key = None then obj else AList.update key v obj)"

text \<open>\<^verbatim>\<open>saveToStorage(STORAGE_KEYS.votes, allVotes)\<close> writes the JSON text.\<close>

definition saveVotes :: "(string \<times> tally) list \<Rightarrow> (string \<times> tally) list item" where
  "saveVotes allVotes = Stored (map (\<lambda>(k, t). (k, json_tally t)) allVotes)"

text \<open>
  \<^verbatim>\<open>castVote(milestoneId, voteType, tokensToUse)\<close>. The balance check is the only
  check; the balance is written first, the votes object second. There is no voter
  argument: the balance and the tallies are those of the one browser profile. The
  default \<^verbatim>\<open>tokensToUse = 1\<close> is the caller's to apply.
\<close>

definition castVote ::
  "local_storage \<Rightarrow> string \<Rightarrow> vote_type \<Rightarrow> int \<Rightarrow> (error + cast_result) \<times> local_storage" where
  "castVote ls milestoneId voteType tokensToUse =
     (let currentBalance = loadFromStorage (tokenBalance ls) 0 in
      if currentBalance < tokensToUse then (Inl (InsufficientBalance currentBalance), ls)
      else
        let newBalance = currentBalance - tokensToUse;
            ls1 = ls\<lparr>tokenBalance := Stored newBalance\<rparr>;
            allVotes = loadFromStorage (votes ls1) [];
            prevVotes = fields_of (votes_or_zero allVotes milestoneId);
            updatedVotes = add_votes prevVotes voteType tokensToUse;
            ls2 = ls1\<lparr>votes := saveVotes (js_set allVotes milestoneId updatedVotes)\<rparr>;
            total_w = js_plus (yes updatedVotes) (no updatedVotes)
        in (Inr \<lparr>cr_votes = updatedVotes,
                 cr_tokenBalance = newBalance,
                 cr_isApproved = js_approved (yes updatedVotes) total_w,
                 cr_yesPercent = js_percent (yes updatedVotes) total_w\<rparr>,
            ls2))"

subsubsection \<open>The wallet\<close>

text \<open>
  The mainnet-js wallet is an external collaborator. The model keeps its address and the
  list of requests it has broadcast; what \<^verbatim>\<open>wallet.send\<close> answers (\<open>Inr\<close> a
  transaction id, \<open>Inl\<close> the message of a rejection) is an argument. A rejected
  request broadcasts nothing.
\<close>

datatype send_request =
    BchSend string rat      \<comment> \<open>\<^verbatim>\<open>{ cashaddr, value, unit: 'bch' }\<close>\<close>
  | TokenSend string int    \<comment> \<open>\<^verbatim>\<open>new TokenSendRequest({ cashaddr, amount })\<close>\<close>

record wallet =
  cashaddr :: string
  broadcast :: "send_request list"

definition wallet_send ::
  "wallet \<Rightarrow> send_request \<Rightarrow> string + string \<Rightarrow> (error + string) \<times> wallet" where
  "wallet_send w req answer =
     (case answer of
        Inl msg \<Rightarrow> (Inl (LedgerError msg), w)
      | Inr txId \<Rightarrow> (Inr txId, w\<lparr>broadcast := broadcast w @ [req]\<rparr>))"

subsubsection \<open>fundMilestoneContract\<close>

text \<open>
  An amount argument is the decimal numeral the caller passes (the panel passes
  \<^verbatim>\<open>parseFloat\<close> of its input field); the number is its nearest double.
\<close>

definition TOKENS_PER_UNIT :: rat where
  "TOKENS_PER_UNIT = 100"

text \<open>
  \<^verbatim>\<open>Math.floor((amountBch / 0.001) * TOKENS_PER_UNIT)\<close> on the double
  \<^verbatim>\<open>amountBch\<close>: the literal \<^verbatim>\<open>0.001\<close> is a double, the quotient and the product
  are rounded.
\<close>

definition tokenAmount_of :: "rat \<Rightarrow> int" where
  "tokenAmount_of amountBch = \<lfloor>dmul (ddiv amountBch (double (1 / 1000))) TOKENS_PER_UNIT\<rfloor>"

record fund_result =
  fr_tokenCategory :: string
  fr_tokenAmount :: int
  fr_newTokenBalance :: int
  fr_simulatedTxId :: string

text \<open>
  \<^verbatim>\<open>fundMilestoneContract(wallet, amountBch, projectAddr)\<close>. \<open>answer\<close> is what the genesis
  \<^verbatim>\<open>wallet.send\<close> gives; on a rejection the \<^verbatim>\<open>catch\<close> makes up the id
  \<^verbatim>\<open>'simulated_' + Date.now().toString(16)\<close>, whose clock reading \<open>now\<close> is an argument.
\<close>

definition fundMilestoneContract ::
  "local_storage \<Rightarrow> wallet \<Rightarrow> string + string \<Rightarrow> string \<Rightarrow> rat \<Rightarrow> string
     \<Rightarrow> (error + fund_result) \<times> local_storage \<times> wallet" where
  "fundMilestoneContract ls w answer now amount_arg projectAddr =
     (let amountBch = double amount_arg;
          tokenAmount = tokenAmount_of amountBch
      in
      if tokenAmount < 1 then (Inl InvalidAmount, ls, w)
      else
        let (genesisResult, w1) = wallet_send w (TokenSend (cashaddr w) tokenAmount) answer;
            mintTxId = (case genesisResult of Inr txId \<Rightarrow> txId | Inl _ \<Rightarrow> ''simulated_'' @ now);
            tokenCategory' = mintTxId;
            prevLocked = double (loadFromStorage (lockedAmount ls) 0);
            ls1 = ls\<lparr>lockedAmount := Stored (dadd prevLocked amountBch)\<rparr>;
            ls2 = ls1\<lparr>tokenCategory := Stored tokenCategory'\<rparr>;
            prevTokens = loadFromStorage (tokenBalance ls2) 0;
            newTokenBalance = prevTokens + tokenAmount;
            ls3 = ls2\<lparr>tokenBalance := Stored newTokenBalance\<rparr>
        in (Inr \<lparr>fr_tokenCategory = tokenCategory',
                 fr_tokenAmount = tokenAmount,
                 fr_newTokenBalance = newTokenBalance,
                 fr_simulatedTxId = mintTxId\<rparr>,
            ls3, w1))"

subsubsection \<open>releaseMilestoneFunds\<close>

text \<open>
  \<^verbatim>\<open>releaseMilestoneFunds(wallet, amountBch, projectAddr)\<close>. The function has no
  milestone argument; its one check is \<^verbatim>\<open>amountBch > locked + 0.0001\<close>, a comparison
  of doubles. \<open>answer\<close> is what \<^verbatim>\<open>wallet.send\<close> gives.
\<close>

definition releaseMilestoneFunds ::
  "local_storage \<Rightarrow> wallet \<Rightarrow> string + string \<Rightarrow> rat \<Rightarrow> string
     \<Rightarrow> (error + string) \<times> local_storage \<times> wallet" where
  "releaseMilestoneFunds ls w answer amount_arg projectAddr =
     (let amountBch = double amount_arg;
          locked = double (loadFromStorage (lockedAmount ls) 0)
      in
      if amountBch > dadd locked (double (1 / 10000))
      then (Inl (InsufficientLockedFunds locked), ls, w)
      else
        (case wallet_send w (BchSend projectAddr amountBch) answer of
           (Inl e, w1) \<Rightarrow> (Inl e, ls, w1)
         | (Inr txId, w1) \<Rightarrow>
             let remaining = max 0 (dsub locked amountBch)
             in (Inr txId, ls\<lparr>lockedAmount := Stored remaining\<rparr>, w1)))"

subsection \<open>lib/db: the Postgres store behind the Supabase client\<close>

text \<open>
  \<^verbatim>\<open>lib/supabase.js\<close> exports the client, or \<^verbatim>\<open>null\<close> when the two environment
  variables are not set. The functions modelled here do not call
  \<^verbatim>\<open>requireSupabase\<close>: with the \<^verbatim>\<open>null\<close> client the first
  \<^verbatim>\<open>supabase.from(...)\<close> they reach throws a \<^verbatim>\<open>TypeError\<close>.
\<close>

datatype supabase_client = NullClient | Client

text \<open>
  The tables of \<^verbatim>\<open>schema.sql\<close>, with the columns the functions read or write (the
  generated \<^verbatim>\<open>id\<close> of votes and transactions, \<^verbatim>\<open>created_at\<close>, titles and
  descriptions are left out). Milestones are keyed by their primary key. A
  \<^verbatim>\<open>NUMERIC(18, 8)\<close> amount is the exact decimal the store keeps.
\<close>

record vote_row =
  milestone_id :: string
  voter_id :: string
  vote :: bool
  voting_power :: int

record milestone_row =
  project_id :: string
  amount_allocated :: rat
  status :: string

record transaction_row =
  tx_project_id :: string
  tx_hash :: string
  amount :: rat
  tx_type :: string

record database =
  tbl_users :: "string list"
  tbl_projects :: "string list"
  tbl_milestones :: "(string \<times> milestone_row) list"
  tbl_votes :: "vote_row list"
  tbl_transactions :: "transaction_row list"

text \<open>The \<^verbatim>\<open>error\<close> object of a Supabase response.\<close>

record pg_error =
  code :: string
  message :: string

text \<open>
  A request may fail before the store evaluates it (network, timeout, policy): such a
  failure is the argument \<open>fault\<close> of each store operation, \<open>None\<close> when the request
  goes through.
\<close>

type_synonym fault = "pg_error option"

definition unique_violation :: pg_error where
  "unique_violation =
     \<lparr>code = ''23505'',
      message = ''duplicate key value violates unique constraint votes_unique_per_user_milestone''\<rparr>"

definition check_violation :: pg_error where
  "check_violation = \<lparr>code = ''23514'', message = ''new row violates check constraint''\<rparr>"

definition foreign_key_violation :: pg_error where
  "foreign_key_violation =
     \<lparr>code = ''23503'', message = ''insert or update violates foreign key constraint''\<rparr>"

definition integer_out_of_range :: pg_error where
  "integer_out_of_range = \<lparr>code = ''22003'', message = ''value is out of range for type integer''\<rparr>"

definition no_single_row :: pg_error where
  "no_single_row =
     \<lparr>code = ''PGRST116'', message = ''JSON object requested, multiple (or no) rows returned''\<rparr>"

text \<open>The range of a Postgres \<^verbatim>\<open>INTEGER\<close> column.\<close>

definition in_int4 :: "int \<Rightarrow> bool" where
  "in_int4 n = (- 2147483648 \<le> n \<and> n \<le> 2147483647)"

text \<open>
  \<^verbatim>\<open>INSERT INTO votes\<close>: the weight is read into the \<^verbatim>\<open>INTEGER\<close> column, then
  \<^verbatim>\<open>CHECK (voting_power >= 1)\<close>, then \<^verbatim>\<open>UNIQUE (milestone_id, voter_id)\<close>, then the
  two foreign keys.
\<close>

definition has_vote :: "database \<Rightarrow> string \<Rightarrow> string \<Rightarrow> bool" where
  "has_vote db m v = list_ex (\<lambda>r. milestone_id r = m \<and> voter_id r = v) (tbl_votes db)"

definition insert_vote :: "database \<Rightarrow> fault \<Rightarrow> vote_row \<Rightarrow> pg_error + database" where
  "insert_vote db flt row =
     (case flt of
        Some e \<Rightarrow> Inl e
      | None \<Rightarrow>
          if \<not> in_int4 (voting_power row) then Inl integer_out_of_range
          else if voting_power row < 1 then Inl check_violation
          else if has_vote db (milestone_id row) (voter_id row) then Inl unique_violation
          else if map_of (tbl_milestones db) (milestone_id row) = None
                  \<or> \<not> List.member (tbl_users db) (voter_id row)
          then Inl foreign_key_violation
          else Inr (db\<lparr>tbl_votes := tbl_votes db @ [row]\<rparr>))"

text \<open>\<^verbatim>\<open>SELECT vote, voting_power FROM votes WHERE milestone_id = ...\<close>.\<close>

definition select_votes :: "database \<Rightarrow> fault \<Rightarrow> string \<Rightarrow> pg_error + vote_row list" where
  "select_votes db flt m =
     (case flt of
        Some e \<Rightarrow> Inl e
      | None \<Rightarrow> Inr (filter (\<lambda>r. milestone_id r = m) (tbl_votes db)))"

text \<open>
  \<^verbatim>\<open>SELECT id ... { count: 'exact', head: true }\<close> with both \<^verbatim>\<open>eq\<close> filters; the
  client types \<^verbatim>\<open>count\<close> as a number or \<^verbatim>\<open>null\<close>.
\<close>

definition count_votes :: "database \<Rightarrow> fault \<Rightarrow> string \<Rightarrow> string \<Rightarrow> pg_error + nat option" where
  "count_votes db flt m v =
     (case flt of
        Some e \<Rightarrow> Inl e
      | None \<Rightarrow>
          Inr (Some (length (filter (\<lambda>r. milestone_id r = m \<and> voter_id r = v) (tbl_votes db)))))"

text \<open>
  \<^verbatim>\<open>UPDATE milestones SET status = ... WHERE id = ...\<close> followed by
  \<^verbatim>\<open>.select().single()\<close>, which errs when no row matched. The column's
  \<^verbatim>\<open>CHECK (status IN (...))\<close> is checked by the caller beforehand as well.
\<close>

definition validStatuses :: "string list" where
  "validStatuses = [''pending'', ''voting'', ''approved'', ''released'', ''rejected'']"

definition update_status ::
  "database \<Rightarrow> fault \<Rightarrow> string \<Rightarrow> string \<Rightarrow> pg_error + milestone_row \<times> database" where
  "update_status db flt m st =
     (case flt of
        Some e \<Rightarrow> Inl e
      | None \<Rightarrow>
          (case map_of (tbl_milestones db) m of
             None \<Rightarrow> Inl no_single_row
           | Some row \<Rightarrow>
               if \<not> List.member validStatuses st then Inl check_violation
               else
                 let row' = row\<lparr>status := st\<rparr>
                 in Inr (row', db\<lparr>tbl_milestones := AList.update m row' (tbl_milestones db)\<rparr>)))"

subsubsection \<open>milestones.js: updateMilestoneStatus\<close>

text \<open>\<^verbatim>\<open>!x\<close> for an id argument: \<^verbatim>\<open>undefined\<close>, \<^verbatim>\<open>null\<close> or the empty string.\<close>

definition missing :: "string option \<Rightarrow> bool" where
  "missing x = (case x of None \<Rightarrow> True | Some s \<Rightarrow> s = [])"

definition updateMilestoneStatus ::
  "supabase_client \<Rightarrow> database \<Rightarrow> fault \<Rightarrow> string option \<Rightarrow> string
     \<Rightarrow> (error + milestone_row) \<times> database" where
  "updateMilestoneStatus supabase db flt milestoneId st =
     (if missing milestoneId then (Inl (Required ''milestoneId''), db)
      else if \<not> List.member validStatuses st then (Inl InvalidStatus, db)
      else if supabase = NullClient then (Inl TypeError, db)
      else
        (case update_status db flt (the milestoneId) st of
           Inl e \<Rightarrow> (Inl (StoreError (message e)), db)
         | Inr (row, db') \<Rightarrow> (Inr row, db')))"

subsubsection \<open>votes.js: voteOnMilestone and hasUserVoted\<close>

record vote_result =
  voteRecord :: vote_row
  milestoneApproved :: bool
  yesPercent :: int
  yesWeight :: int
  noWeight :: int
  total :: int

text \<open>
  \<^verbatim>\<open>allVotes.filter(v => v.vote === b).reduce((s, v) => s + v.voting_power, 0)\<close>.
\<close>

definition weight_of :: "bool \<Rightarrow> vote_row list \<Rightarrow> int" where
  "weight_of b allVotes = foldl (\<lambda>s v. s + voting_power v) 0 (filter (\<lambda>v. vote v = b) allVotes)"

text \<open>The faults of the three requests of one \<^verbatim>\<open>voteOnMilestone\<close> call.\<close>

record vote_faults =
  insert_fault :: fault
  select_fault :: fault
  update_fault :: fault

text \<open>
  The argument \<^verbatim>\<open>votingPower\<close>: left out or \<^verbatim>\<open>undefined\<close>, \<^verbatim>\<open>null\<close>, or an
  integer. The default of the parameter list \<^verbatim>\<open>votingPower = 1\<close> replaces
  \<^verbatim>\<open>undefined\<close> only; \<^verbatim>\<open>null < 1\<close> is true.
\<close>

datatype weight_arg = Omitted | NullWeight | Weight int

definition default_weight :: "weight_arg \<Rightarrow> weight_arg" where
  "default_weight w = (case w of Omitted \<Rightarrow> Weight 1 | _ \<Rightarrow> w)"

definition weight_below_one :: "weight_arg \<Rightarrow> bool" where
  "weight_below_one w = (case w of Weight n \<Rightarrow> n < 1 | _ \<Rightarrow> True)"

definition weight_value :: "weight_arg \<Rightarrow> int" where
  "weight_value w = (case w of Weight n \<Rightarrow> n | _ \<Rightarrow> 0)"

text \<open>
  \<^verbatim>\<open>voteOnMilestone({ milestoneId, voterId, vote, votingPower = 1 })\<close>. \<open>vote\<close> is
  \<open>None\<close> when the argument is not a boolean. After the insert the tallies are recomputed
  from the stored rows and the status is written: \<^verbatim>\<open>'approved'\<close> when the threshold is
  passed, else \<^verbatim>\<open>'voting'\<close> when \<^verbatim>\<open>total > 0\<close>.
\<close>

definition voteOnMilestone ::
  "supabase_client \<Rightarrow> database \<Rightarrow> vote_faults \<Rightarrow> string option \<Rightarrow> string option \<Rightarrow> bool option
     \<Rightarrow> weight_arg \<Rightarrow> (error + vote_result) \<times> database" where
  "voteOnMilestone supabase db flts milestoneId voterId vote_arg votingPower_arg =
     (let votingPower = default_weight votingPower_arg in
      if missing milestoneId then (Inl (Required ''milestoneId''), db)
      else if missing voterId then (Inl (Required ''voterId''), db)
      else if vote_arg = None then (Inl InvalidVote, db)
      else if weight_below_one votingPower then (Inl InvalidWeight, db)
      else if supabase = NullClient then (Inl TypeError, db)
      else
        let row = \<lparr>milestone_id = the milestoneId, voter_id = the voterId,
                   vote = the vote_arg, voting_power = weight_value votingPower\<rparr>
        in
        (case insert_vote db (insert_fault flts) row of
           Inl insertError \<Rightarrow>
             if code insertError = ''23505'' then (Inl DuplicateVote, db)
             else (Inl (StoreError (message insertError)), db)
         | Inr db1 \<Rightarrow>
             (case select_votes db1 (select_fault flts) (the milestoneId) of
                Inl fetchError \<Rightarrow> (Inl (StoreError (message fetchError)), db1)
              | Inr allVotes \<Rightarrow>
                  let yesWeight' = weight_of True allVotes;
                      noWeight' = weight_of False allVotes;
                      total' = yesWeight' + noWeight';
                      yesPercent' = yes_percent yesWeight' total';
                      milestoneApproved' = is_approved yesWeight' total';
                      result = \<lparr>voteRecord = row, milestoneApproved = milestoneApproved',
                                yesPercent = yesPercent', yesWeight = yesWeight',
                                noWeight = noWeight', total = total'\<rparr>
                  in
                  if milestoneApproved' then
                    (case updateMilestoneStatus supabase db1 (update_fault flts) milestoneId
                            ''approved'' of
                       (Inl e, db2) \<Rightarrow> (Inl e, db2)
                     | (Inr _, db2) \<Rightarrow> (Inr result, db2))
                  else if total' > 0 then
                    (case updateMilestoneStatus supabase db1 (update_fault flts) milestoneId
                            ''voting'' of
                       (Inl e, db2) \<Rightarrow> (Inl e, db2)
                     | (Inr _, db2) \<Rightarrow> (Inr result, db2))
                  else (Inr result, db1))))"

text \<open>
  \<^verbatim>\<open>hasUserVoted(milestoneId, voterId)\<close>: one read request and no \<^verbatim>\<open>throw\<close>
  statement; the store is returned as the call leaves it.
\<close>

definition hasUserVoted ::
  "supabase_client \<Rightarrow> database \<Rightarrow> fault \<Rightarrow> string option \<Rightarrow> string option
     \<Rightarrow> (error + bool) \<times> database" where
  "hasUserVoted supabase db flt milestoneId voterId =
     (if missing milestoneId \<or> missing voterId then (Inr False, db)
      else if supabase = NullClient then (Inl TypeError, db)
      else
        (case count_votes db flt (the milestoneId) (the voterId) of
           Inl e \<Rightarrow> (Inr False, db)
         | Inr cnt \<Rightarrow> (Inr ((case cnt of None \<Rightarrow> 0 | Some c \<Rightarrow> c) > 0), db)))"

subsubsection \<open>transactions.js: getProjectFundingTotal\<close>

text \<open>
  Rounding to eight decimal places, a half rounding away from zero: what
  \<^verbatim>\<open>toFixed(8)\<close> prints of the exact value of a double.
\<close>

definition round8 :: "rat \<Rightarrow> rat" where
  "round8 x =
     (if x < 0 then - (of_int \<lfloor>(- x) * 10 ^ 8 + 1 / 2\<rfloor> / 10 ^ 8)
      else of_int \<lfloor>x * 10 ^ 8 + 1 / 2\<rfloor> / 10 ^ 8)"

text \<open>
  \<^verbatim>\<open>SELECT amount FROM transactions WHERE project_id = ... AND type = 'funding'\<close>; the
  client types \<^verbatim>\<open>data\<close> as the rows or \<^verbatim>\<open>null\<close>.
\<close>

definition select_funding :: "database \<Rightarrow> fault \<Rightarrow> string \<Rightarrow> pg_error + rat list option" where
  "select_funding db flt p =
     (case flt of
        Some e \<Rightarrow> Inl e
      | None \<Rightarrow>
          Inr (Some (map amount
                 (filter (\<lambda>t. tx_project_id t = p \<and> tx_type t = ''funding'')
                    (tbl_transactions db)))))"

text \<open>
  \<^verbatim>\<open>(data ?? []).reduce((sum, tx) => sum + parseFloat(tx.amount), 0)\<close>: each amount
  is read as a double and every addition is rounded.
\<close>

definition double_sum :: "rat list \<Rightarrow> rat" where
  "double_sum rows = foldl (\<lambda>sum a. dadd sum (double a)) 0 rows"

text \<open>
  \<^verbatim>\<open>getProjectFundingTotal(projectId)\<close>: the sum above, then
  \<^verbatim>\<open>parseFloat(total.toFixed(8))\<close>. It only reads.
\<close>

definition getProjectFundingTotal ::
  "supabase_client \<Rightarrow> database \<Rightarrow> fault \<Rightarrow> string option \<Rightarrow> (error + rat) \<times> database" where
  "getProjectFundingTotal supabase db flt projectId =
     (if missing projectId then (Inl (Required ''projectId''), db)
      else if supabase = NullClient then (Inl TypeError, db)
      else
        (case select_funding db flt (the projectId) of
           Inl e \<Rightarrow> (Inl (StoreError (message e)), db)
         | Inr data \<Rightarrow>
             let rows = (case data of None \<Rightarrow> [] | Some xs \<Rightarrow> xs);
                 total' = double_sum rows
             in (Inr (double (round8 total')), db)))"

subsection \<open>hooks/useSupabase.js: castVoteDB\<close>

text \<open>
  The state of the application: the store and the browser's localStorage. The hook
  \<^verbatim>\<open>castVoteDB\<close> votes for the logged-in user through \<^verbatim>\<open>voteOnMilestone\<close>; it
  refuses when no user is connected (its updates of the React view state are left out).
  Its parameter list has the default \<^verbatim>\<open>votingPower = 1\<close> as well.
\<close>

record app_state =
  app_db :: database
  app_storage :: local_storage

definition castVoteDB ::
  "supabase_client \<Rightarrow> app_state \<Rightarrow> vote_faults \<Rightarrow> string option \<Rightarrow> string option \<Rightarrow> bool option
     \<Rightarrow> weight_arg \<Rightarrow> (error + vote_result) \<times> app_state" where
  "castVoteDB supabase st flts user milestoneId vote_arg votingPower_arg =
     (case user of
        None \<Rightarrow> (Inl NotConnected, st)
      | Some user_id \<Rightarrow>
          let votingPower = default_weight votingPower_arg;
              (result, db') =
                voteOnMilestone supabase (app_db st) flts milestoneId (Some user_id) vote_arg
                  votingPower
          in (result, st\<lparr>app_db := db'\<rparr>))"

subsection \<open>Views of the state used in the statements\<close>

text \<open>
  The status column of a milestone, the votes of a milestone, the column check
  \<^verbatim>\<open>CHECK (voting_power >= 1)\<close> on all stored votes and the constraint
  \<^verbatim>\<open>UNIQUE (milestone_id, voter_id)\<close> as properties of the votes table.
\<close>

definition milestone_status :: "database \<Rightarrow> string \<Rightarrow> string option" where
  "milestone_status db m = map_option status (map_of (tbl_milestones db) m)"

definition votes_for :: "database \<Rightarrow> string \<Rightarrow> vote_row list" where
  "votes_for db m = filter (\<lambda>r. milestone_id r = m) (tbl_votes db)"

definition votes_checked :: "database \<Rightarrow> bool" where
  "votes_checked db = list_all (\<lambda>r. voting_power r \<ge> 1) (tbl_votes db)"

definition votes_unique :: "database \<Rightarrow> bool" where
  "votes_unique db = distinct (map (\<lambda>r. (milestone_id r, voter_id r)) (tbl_votes db))"

text \<open>
  A weight argument that passes \<^verbatim>\<open>votingPower < 1\<close> and fits the
  \<^verbatim>\<open>INTEGER\<close> column: left out, or an integer from 1 to 2147483647.
\<close>

definition valid_weight :: "weight_arg \<Rightarrow> bool" where
  "valid_weight w = (case w of Omitted \<Rightarrow> True | NullWeight \<Rightarrow> False | Weight n \<Rightarrow> 1 \<le> n \<and> in_int4 n)"

text \<open>
  The amounts of the funding rows of a project, and what the column
  \<^verbatim>\<open>amount NUMERIC(18, 8) NOT NULL CHECK (amount > 0)\<close> makes of each of them: a
  positive decimal with at most eight places.
\<close>

definition funding_amounts :: "database \<Rightarrow> string \<Rightarrow> rat list" where
  "funding_amounts db p =
     map amount (filter (\<lambda>t. tx_project_id t = p \<and> tx_type t = ''funding'') (tbl_transactions db))"

definition numeric_18_8 :: "rat \<Rightarrow> bool" where
  "numeric_18_8 a = (a > 0 \<and> of_int \<lfloor>a * 10 ^ 8\<rfloor> = a * 10 ^ 8)"

subsection \<open>The rules in the spec's words\<close>

text \<open>
  The spec's \<^verbatim>\<open>floor(contributedAmount / unit) * ratio\<close> with \<^verbatim>\<open>unit = 0.001\<close> and
  \<^verbatim>\<open>ratio = 100\<close>, to be compared with \<open>tokenAmount_of\<close>, which is the source's.
\<close>

definition spec_mintedAmount :: "rat \<Rightarrow> int" where
  "spec_mintedAmount contributedAmount = \<lfloor>contributedAmount / (1 / 1000)\<rfloor> * 100"

text \<open>
  The spec's \<^verbatim>\<open>round(yesWeight / total * 100)\<close> when \<^verbatim>\<open>total > 0\<close>, else 0, on
  exact quotients, to be compared with \<open>yes_percent\<close>.
\<close>

definition spec_yesPercent :: "int \<Rightarrow> int \<Rightarrow> int" where
  "spec_yesPercent yes_w total_w =
     (if total_w > 0 then \<lfloor>(of_int yes_w / of_int total_w :: rat) * 100 + 1 / 2\<rfloor> else 0)"

text \<open>
  The spec's sum of the amounts of the project's transactions of type funding, the
  exact decimal sum, to be compared with what \<open>getProjectFundingTotal\<close> returns.
\<close>

definition spec_fundingTotal :: "database \<Rightarrow> string \<Rightarrow> rat" where
  "spec_fundingTotal db p =
     sum_list (map amount
       (filter (\<lambda>t. tx_project_id t = p \<and> tx_type t = ''funding'') (tbl_transactions db)))"

subsection \<open>Example states\<close>

text \<open>A browser profile holding 50 governance tokens and nothing else.\<close>

definition ls50 :: local_storage where
  "ls50 = \<lparr>tokenBalance = Stored 50, votes = Missing, lockedAmount = Missing,
            tokenCategory = Missing\<rparr>"

text \<open>A profile whose three keys are absent, and one whose three keys hold broken JSON.\<close>

definition ls_empty :: local_storage where
  "ls_empty = \<lparr>tokenBalance = Missing, votes = Missing, lockedAmount = Missing,
               tokenCategory = Missing\<rparr>"

definition ls_broken :: local_storage where
  "ls_broken = \<lparr>tokenBalance = Malformed, votes = Malformed, lockedAmount = Malformed,
                tokenCategory = Missing\<rparr>"

text \<open>A store with two users, one project and one pending milestone; no request fails.\<close>

definition db0 :: database where
  "db0 = \<lparr>tbl_users = [''alice'', ''bob''], tbl_projects = [''p1''],
          tbl_milestones =
            [(''m1'', \<lparr>project_id = ''p1'', amount_allocated = 1 / 100, status = ''pending''\<rparr>)],
          tbl_votes = [], tbl_transactions = []\<rparr>"

definition no_faults :: vote_faults where
  "no_faults = \<lparr>insert_fault = None, select_fault = None, update_fault = None\<rparr>"

text \<open>The store after alice's YES with weight 1, and after bob's NO with weight 1 on top.\<close>

definition db_yes :: database where
  "db_yes =
     snd (voteOnMilestone Client db0 no_faults (Some ''m1'') (Some ''alice'') (Some True)
            (Weight 1))"

definition db_yes_no :: database where
  "db_yes_no =
     snd (voteOnMilestone Client db_yes no_faults (Some ''m1'') (Some ''bob'') (Some False)
            (Weight 1))"

text \<open>
  Scenario B on the store: alice's YES with weight 60, to be followed by bob's NO with
  weight 40; and alice's YES with weight 23, to be followed by bob's NO with weight 17.
  And a browser profile with 10 tokens and a tally of 3 to 0 on \<open>m1\<close>.
\<close>

definition db_60 :: database where
  "db_60 =
     snd (voteOnMilestone Client db0 no_faults (Some ''m1'') (Some ''alice'') (Some True)
            (Weight 60))"

definition db_23 :: database where
  "db_23 =
     snd (voteOnMilestone Client db0 no_faults (Some ''m1'') (Some ''alice'') (Some True)
            (Weight 23))"

definition ls_3_0 :: local_storage where
  "ls_3_0 = \<lparr>tokenBalance = Stored 10, votes = Stored [(''m1'', \<lparr>yes = Num 3, no = Num 0\<rparr>)],
             lockedAmount = Stored (1 / 100), tokenCategory = Missing\<rparr>"


definition st_yes :: app_state where
  "st_yes = \<lparr>app_db = db_yes, app_storage = ls50\<rparr>"

text \<open>
  A wallet that has broadcast nothing, and a browser profile with 0.01 BCH locked whose
  milestone \<open>m1\<close> has one NO token and no YES token.
\<close>

definition w0 :: wallet where
  "w0 = \<lparr>cashaddr = ''bchtest:funder'', broadcast = []\<rparr>"

definition ls_voting :: local_storage where
  "ls_voting = \<lparr>tokenBalance = Stored 10, votes = Stored [(''m1'', \<lparr>yes = Num 0, no = Num 1\<rparr>)],
                lockedAmount = Stored (1 / 100), tokenCategory = Missing\<rparr>"

text \<open>
  A ledger with two fundings, a release and a refund of project \<open>p1\<close> and a funding of
  another project; and the same rows in the opposite order of arrival.
\<close>

definition db_funded :: database where
  "db_funded = db0\<lparr>tbl_transactions :=
     [\<lparr>tx_project_id = ''p1'', tx_hash = ''h1'', amount = 1 / 100, tx_type = ''funding''\<rparr>,
      \<lparr>tx_project_id = ''p1'', tx_hash = ''h2'', amount = 1 / 1000, tx_type = ''release''\<rparr>,
      \<lparr>tx_project_id = ''p2'', tx_hash = ''h3'', amount = 5, tx_type = ''funding''\<rparr>,
      \<lparr>tx_project_id = ''p1'', tx_hash = ''h4'', amount = 2 / 100, tx_type = ''funding''\<rparr>,
      \<lparr>tx_project_id = ''p1'', tx_hash = ''h5'', amount = 3 / 1000, tx_type = ''refund''\<rparr>]\<rparr>"

definition db_funded_rev :: database where
  "db_funded_rev = db_funded\<lparr>tbl_transactions := rev (tbl_transactions db_funded)\<rparr>"

text \<open>
  A ledger with two fundings of 30000000.00000002 and 30000000.00000003; and two ledgers
  with the same three fundings, 10000000.00000001 twice and 10000000.00000003, in two
  orders of arrival.
\<close>

definition funding_row :: "string \<Rightarrow> rat \<Rightarrow> transaction_row" where
  "funding_row h a = \<lparr>tx_project_id = ''p1'', tx_hash = h, amount = a, tx_type = ''funding''\<rparr>"

definition db_large :: database where
  "db_large = db0\<lparr>tbl_transactions :=
     [funding_row ''h1'' (3000000000000002 / 10 ^ 8),
      funding_row ''h2'' (3000000000000003 / 10 ^ 8)]\<rparr>"

definition db_order_a :: database where
  "db_order_a = db0\<lparr>tbl_transactions :=
     [funding_row ''h1'' (1000000000000001 / 10 ^ 8),
      funding_row ''h2'' (1000000000000001 / 10 ^ 8),
      funding_row ''h3'' (1000000000000003 / 10 ^ 8)]\<rparr>"

definition db_order_b :: database where
  "db_order_b = db0\<lparr>tbl_transactions :=
     [funding_row ''h3'' (1000000000000003 / 10 ^ 8),
      funding_row ''h1'' (1000000000000001 / 10 ^ 8),
      funding_row ''h2'' (1000000000000001 / 10 ^ 8)]\<rparr>"

section \<open>Properties\<close>

subsection \<open>Doubles\<close>

lemma pow2_pos [simp]: "pow2 e > 0"
  by (simp add: pow2_def)

lemma pow2_powi: "pow2 e = 2 powi e"
  by (simp add: pow2_def power_int_def power_one_over)

lemma pow2_add: "pow2 (a + b) = pow2 a * pow2 b"
  by (simp add: pow2_powi power_int_add)

lemma pow2_Suc: "pow2 (e + 1) = 2 * pow2 e"
  using pow2_add [of e 1] by (simp add: pow2_def)

lemma pow2_mono: "a \<le> b \<Longrightarrow> pow2 a \<le> pow2 b"
  unfolding pow2_powi by (intro power_int_increasing) simp_all

lemma pow2_less_cancel: "pow2 a < pow2 b \<Longrightarrow> a < b"
  using pow2_mono [of b a] by (cases "a < b") auto

lemma ilog2_bounds:
  assumes "x > 0"
  shows "pow2 (ilog2 x) \<le> x \<and> x < pow2 (ilog2 x + 1)"
proof (cases "x \<ge> 1")
  case True
  let ?n = "\<lfloor>x\<rfloor>"
  have n: "?n > 0" using True by linarith
  from bitlen_bounds [OF n] have lo: "2 ^ nat (bitlen ?n - 1) \<le> ?n" and hi: "?n < 2 ^ nat (bitlen ?n)"
    by simp_all
  have b: "bitlen ?n \<ge> 1" using n by (simp add: bitlen_alt_def)
  have "rat_of_int (2 ^ nat (bitlen ?n - 1)) \<le> of_int ?n" using lo by (simp only: of_int_le_iff)
  also have "\<dots> \<le> x" by simp
  finally have 1: "pow2 (ilog2 x) \<le> x" using True b by (simp add: ilog2_def pow2_def)
  have "?n + 1 \<le> 2 ^ nat (bitlen ?n)" using hi by simp
  then have "rat_of_int (?n + 1) \<le> of_int (2 ^ nat (bitlen ?n))" by (simp only: of_int_le_iff)
  moreover have "x < of_int (?n + 1)" by linarith
  ultimately have "x < 2 ^ nat (bitlen ?n)" by simp
  then have 2: "x < pow2 (ilog2 x + 1)" using True b by (simp add: ilog2_def pow2_def)
  from 1 2 show ?thesis ..
next
  case False
  define y where "y = 1 / x"
  have y: "y > 1" using False assms by (simp add: y_def)
  let ?n = "\<lceil>y\<rceil>"
  have n: "?n - 1 > 0" using y by linarith
  define k where "k = bitlen (?n - 1)"
  from bitlen_bounds [OF n] have lo: "2 ^ nat (k - 1) \<le> ?n - 1" and hi: "?n - 1 < 2 ^ nat k"
    by (simp_all add: k_def)
  have k: "k \<ge> 1" using n by (simp add: k_def bitlen_alt_def)
  have e: "ilog2 x = - k" using False by (simp add: ilog2_def k_def y_def)
  have "?n \<le> 2 ^ nat k" using hi by simp
  then have "rat_of_int ?n \<le> of_int (2 ^ nat k)" by (simp only: of_int_le_iff)
  then have "rat_of_int ?n \<le> 2 ^ nat k" by simp
  moreover have "y \<le> of_int ?n" by (rule le_of_int_ceiling)
  ultimately have "y \<le> 2 ^ nat k" by (rule order_trans [rotated])
  then have "1 / 2 ^ nat k \<le> x" using assms by (simp add: y_def field_simps)
  then have 1: "pow2 (ilog2 x) \<le> x" using k by (simp add: e pow2_def)
  have "rat_of_int (2 ^ nat (k - 1)) \<le> of_int (?n - 1)" using lo by (simp only: of_int_le_iff)
  moreover have "of_int (?n - 1) < y" by linarith
  ultimately have "2 ^ nat (k - 1) < y" by simp
  then have "x < 1 / 2 ^ nat (k - 1)" using assms by (simp add: y_def field_simps)
  moreover have "pow2 (- k + 1) = 1 / 2 ^ nat (k - 1)"
    using k by (cases "k = 1") (auto simp: pow2_def)
  ultimately have 2: "x < pow2 (ilog2 x + 1)" by (simp add: e)
  from 1 2 show ?thesis ..
qed


lemma pow2_nonneg [simp]: "0 \<le> pow2 e"
  by (simp add: pow2_def)

lemma pow2_neq0 [simp]: "pow2 e \<noteq> 0"
  by (simp add: pow2_def)

lemma rne_error: "\<bar>of_int (rne y) - y\<bar> \<le> 1 / 2"
proof -
  have "of_int \<lfloor>y\<rfloor> \<le> y" "y < of_int \<lfloor>y\<rfloor> + 1" by linarith+
  then show ?thesis by (auto simp: rne_def Let_def)
qed

lemma rne_ge_int: "of_int n \<le> y \<Longrightarrow> n \<le> rne y"
proof -
  assume "of_int n \<le> y"
  then have "n \<le> \<lfloor>y\<rfloor>" by (simp add: le_floor_iff)
  then show ?thesis by (auto simp: rne_def Let_def)
qed

lemma rne_le_int: "y \<le> of_int n \<Longrightarrow> rne y \<le> n"
proof -
  assume a: "y \<le> of_int n"
  show ?thesis
  proof (cases "y = of_int n")
    case True
    then show ?thesis by (simp add: rne_def)
  next
    case False
    with a have "y < of_int n" by simp
    then have "\<lfloor>y\<rfloor> < n" by (simp add: floor_less_iff)
    then show ?thesis by (auto simp: rne_def Let_def)
  qed
qed

lemma ilog2_ge: "x > 0 \<Longrightarrow> pow2 k \<le> x \<Longrightarrow> k \<le> ilog2 x"
proof -
  assume "x > 0" "pow2 k \<le> x"
  with ilog2_bounds [of x] have "pow2 k < pow2 (ilog2 x + 1)" by simp
  then have "k < ilog2 x + 1" by (rule pow2_less_cancel)
  then show ?thesis by simp
qed

lemma ilog2_le: "x > 0 \<Longrightarrow> x < pow2 (k + 1) \<Longrightarrow> ilog2 x \<le> k"
proof -
  assume "x > 0" "x < pow2 (k + 1)"
  with ilog2_bounds [of x] have "pow2 (ilog2 x) < pow2 (k + 1)" by simp
  then have "ilog2 x < k + 1" by (rule pow2_less_cancel)
  then show ?thesis by simp
qed

lemma double_pos:
  assumes "x > 0" "ilog2 x \<ge> - 1022"
  shows "double x = of_int (rne (x / pow2 (ilog2 x - 52))) * pow2 (ilog2 x - 52)"
  using assms by (simp add: double_def Let_def max_def)

lemma double_nonneg: "x \<ge> 0 \<Longrightarrow> double x \<ge> 0"
proof (cases "x = 0")
  case True
  then show ?thesis by (simp add: double_def)
next
  case False
  assume "x \<ge> 0"
  with False have x: "x > 0" by simp
  let ?q = "pow2 (max (ilog2 x) (- 1022) - 52)"
  have "0 \<le> rne (x / ?q)" using x by (intro rne_ge_int) simp
  then show ?thesis using x by (simp add: double_def Let_def)
qed

lemma double_minus: "double (- x) = - double x"
  by (simp add: double_def Let_def)

lemma double_nonpos: "x \<le> 0 \<Longrightarrow> double x \<le> 0"
  using double_nonneg [of "- x"] by (simp add: double_minus)

lemma double_error:
  assumes "x > 0" "ilog2 x \<ge> - 1022"
  shows "\<bar>double x - x\<bar> \<le> x / 2 ^ 53"
proof -
  define q where "q = pow2 (ilog2 x - 52)"
  have q: "q > 0" by (simp add: q_def)
  have "pow2 (ilog2 x) = pow2 (ilog2 x - 52) * pow2 52"
    using pow2_add [of "ilog2 x - 52" 52] by simp
  then have "q * 2 ^ 52 \<le> x"
    using ilog2_bounds [OF assms(1)] by (simp add: q_def pow2_def)
  then have qx: "q / 2 \<le> x / 2 ^ 53" by simp
  have "double x - x = (of_int (rne (x / q)) - x / q) * q"
    using q by (simp add: double_pos [OF assms] q_def field_simps)
  then have "\<bar>double x - x\<bar> = \<bar>of_int (rne (x / q)) - x / q\<bar> * q"
    using q by (simp add: abs_mult)
  also have "\<dots> \<le> 1 / 2 * q"
    using q rne_error [of "x / q"] by (intro mult_right_mono) simp_all
  finally show ?thesis using qx by simp
qed

lemma double_ge_pow2:
  assumes "x > 0" "ilog2 x \<ge> - 1022"
  shows "pow2 (ilog2 x) \<le> double x"
proof -
  define q where "q = pow2 (ilog2 x - 52)"
  have q: "q > 0" by (simp add: q_def)
  have p: "pow2 (ilog2 x) = q * 2 ^ 52"
    using pow2_add [of "ilog2 x - 52" 52] by (simp add: q_def pow2_def)
  have "of_int (2 ^ 52) \<le> x / q"
    using ilog2_bounds [OF assms(1)] q by (simp add: p field_simps)
  then have "2 ^ 52 \<le> rne (x / q)" by (rule rne_ge_int)
  then have "rat_of_int (2 ^ 52) \<le> of_int (rne (x / q))" by (simp only: of_int_le_iff)
  then have "2 ^ 52 * q \<le> of_int (rne (x / q)) * q"
    using q by (intro mult_right_mono) simp_all
  then show ?thesis by (simp add: double_pos [OF assms] p q_def mult.commute)
qed

lemma double_ge_1: "x \<ge> 1 \<Longrightarrow> double x \<ge> 1"
proof -
  assume x: "x \<ge> 1"
  then have e: "ilog2 x \<ge> 0" by (intro ilog2_ge) (simp_all add: pow2_def)
  then have "pow2 0 \<le> pow2 (ilog2 x)" by (rule pow2_mono)
  also have "\<dots> \<le> double x" using x e by (intro double_ge_pow2) simp_all
  finally show ?thesis by (simp add: pow2_def)
qed

lemma double_ge_100: "x \<ge> 100 \<Longrightarrow> double x \<ge> 100"
proof -
  assume x: "x \<ge> 100"
  then have x0: "x > 0" by simp
  have e: "ilog2 x \<ge> 6" using x by (intro ilog2_ge) (simp_all add: pow2_def)
  show ?thesis
  proof (cases "ilog2 x \<ge> 7")
    case True
    then have "pow2 7 \<le> pow2 (ilog2 x)" by (rule pow2_mono)
    also have "\<dots> \<le> double x" using x0 e by (intro double_ge_pow2) simp_all
    finally show ?thesis by (simp add: pow2_def)
  next
    case False
    with e have e6: "ilog2 x = 6" by simp
    have q: "pow2 (ilog2 x - 52) = 1 / 2 ^ 46" by (simp add: e6 pow2_def)
    have "rat_of_int (100 * 2 ^ 46) \<le> x / (1 / 2 ^ 46)" using x by simp
    then have "100 * 2 ^ 46 \<le> rne (x / (1 / 2 ^ 46))" by (rule rne_ge_int)
    then have "rat_of_int (100 * 2 ^ 46) \<le> of_int (rne (x / (1 / 2 ^ 46)))"
      by (simp only: of_int_le_iff)
    then have h: "(100::rat) \<le> of_int (rne (x / (1 / 2 ^ 46))) * (1 / 2 ^ 46)"
      by simp
    have em: "ilog2 x \<ge> - 1022" using e by simp
    have "double x = of_int (rne (x / (1 / 2 ^ 46))) * (1 / 2 ^ 46)"
      by (simp only: double_pos [OF x0 em] q)
    with h show ?thesis by (simp only:)
  qed
qed


lemma double_sum_snoc: "double_sum (xs @ [a]) = dadd (double_sum xs) (double a)"
  by (simp add: double_sum_def)

lemma ilog2_ge_small:
  assumes "1 / 2 ^ 30 \<le> x"
  shows "ilog2 x \<ge> - 1022"
proof -
  have x: "x > 0" using assms by (rule less_le_trans [rotated]) simp
  have "pow2 (- 30) \<le> x" using assms by (simp add: pow2_def)
  then have "- 30 \<le> ilog2 x" using x by (intro ilog2_ge)
  then show ?thesis by simp
qed

lemma double_error_small:
  assumes "1 / 2 ^ 30 \<le> x"
  shows "\<bar>double x - x\<bar> \<le> x / 2 ^ 53"
proof -
  have x: "x > 0" using assms by (rule less_le_trans [rotated]) simp
  show ?thesis by (rule double_error [OF x ilog2_ge_small [OF assms]])
qed

lemma sum_list_nonneg_amounts:
  "\<forall>a\<in>set xs. 1 / 10 ^ 8 \<le> a \<Longrightarrow> 0 \<le> sum_list xs" for xs :: "rat list"
proof (induction xs)
  case Nil
  then show ?case by simp
next
  case (Cons a xs)
  then have "0 \<le> sum_list xs" by simp
  moreover have "(0::rat) \<le> 1 / 10 ^ 8" by simp
  moreover have "1 / 10 ^ 8 \<le> a" using Cons.prems by simp
  ultimately show ?case by simp
qed

lemma double_sum_error:
  fixes B :: rat
  assumes "\<forall>a\<in>set xs. 1 / 10 ^ 8 \<le> a" "sum_list xs \<le> B" "4 * of_nat (length xs) \<le> (2::rat) ^ 53"
  shows "0 \<le> double_sum xs \<and> \<bar>double_sum xs - sum_list xs\<bar> \<le> 4 * of_nat (length xs) * B / 2 ^ 53"
  using assms
proof (induction xs rule: rev_induct)
  case Nil
  then show ?case by (simp add: double_sum_def)
next
  case (snoc a xs)
  define t where "t = double_sum xs"
  define S where "S = sum_list xs"
  define E where "E = 4 * of_nat (length xs) * B / (2::rat) ^ 53"
  define u where "u = 1 / (2::rat) ^ 53"
  have a: "1 / 10 ^ 8 \<le> a" using snoc.prems(1) by simp
  have a0: "a > 0" using a by (rule less_le_trans [rotated]) simp
  have S0: "0 \<le> S" unfolding S_def using snoc.prems(1) by (intro sum_list_nonneg_amounts) simp
  have SB: "S + a \<le> B" using snoc.prems(2) by (simp add: S_def)
  have B0: "B > 0" using SB S0 a0 by linarith
  have aB: "a \<le> B" using SB S0 by linarith
  have len: "4 * of_nat (length xs) \<le> (2::rat) ^ 53" using snoc.prems(3) by simp
  have IH: "0 \<le> t \<and> \<bar>t - S\<bar> \<le> E"
    unfolding t_def S_def E_def using snoc.prems(1) SB a0 len
    by (intro snoc.IH) (simp_all add: S_def)
  have EB: "E \<le> B"
  proof -
    have "4 * of_nat (length xs) * B \<le> 2 ^ 53 * B"
      using len B0 by (intro mult_right_mono) simp_all
    then show ?thesis by (simp add: E_def field_simps)
  qed
  define d where "d = double a"
  have "(1::rat) / 2 ^ 30 \<le> 1 / 10 ^ 8" by simp
  then have a30: "1 / 2 ^ 30 \<le> a" using a by (rule order_trans)
  have da: "\<bar>d - a\<bar> \<le> a * u"
    unfolding d_def u_def using double_error_small [OF a30] by simp
  have u_small: "u \<le> 1 / 2" by (simp add: u_def)
  have u0: "u > 0" by (simp add: u_def)
  have "a * u \<le> a * (1 / 2)" using a0 u_small by (intro mult_left_mono) simp_all
  with da have d_lo: "a / 2 \<le> d" by linarith
  define y where "y = t + d"
  have y_lo: "1 / 2 ^ 30 \<le> y"
  proof -
    have "(1::rat) / 2 ^ 30 \<le> 1 / 10 ^ 8 / 2" by simp
    also have "\<dots> \<le> a / 2" using a by simp
    also have "\<dots> \<le> y" using d_lo IH by (simp add: y_def)
    finally show ?thesis .
  qed
  have y0: "y > 0" using y_lo by (rule less_le_trans [rotated]) simp
  have ty: "\<bar>double y - y\<bar> \<le> y * u"
    unfolding u_def using double_error_small [OF y_lo] by simp
  have "d \<le> a + a * u" using da by linarith
  moreover have "a * u \<le> B * u" using aB u0 by (intro mult_right_mono) simp_all
  moreover have "t \<le> S + E" using IH by linarith
  ultimately have "y \<le> (S + a) + E + B * u" by (simp add: y_def)
  also have "\<dots> \<le> B + B + B * u" using SB EB by simp
  also have "\<dots> \<le> 3 * B"
  proof -
    have "B * u \<le> B * (1 / 2)" using B0 u_small by (intro mult_left_mono) simp_all
    then show ?thesis using B0 by simp
  qed
  finally have yB: "y \<le> 3 * B" .
  then have "y * u \<le> 3 * B * u" using u0 by (intro mult_right_mono) simp_all
  with ty have e1: "\<bar>double y - y\<bar> \<le> 3 * B * u" by simp
  have "a * u \<le> B * u" using aB u0 by (intro mult_right_mono) simp_all
  with da have e2: "\<bar>d - a\<bar> \<le> B * u" by simp
  have "double y - (S + a) = (double y - y) + (t - S) + (d - a)" by (simp add: y_def)
  then have "\<bar>double y - (S + a)\<bar> \<le> \<bar>double y - y\<bar> + \<bar>t - S\<bar> + \<bar>d - a\<bar>" by linarith
  also have "\<dots> \<le> 3 * B * u + E + B * u" using e1 e2 IH by linarith
  also have "\<dots> = 4 * of_nat (length (xs @ [a])) * B / 2 ^ 53"
    by (simp add: E_def u_def field_simps)
  finally have err: "\<bar>double y - (S + a)\<bar> \<le> 4 * of_nat (length (xs @ [a])) * B / 2 ^ 53" .
  have "0 \<le> double y" using y0 by (intro double_nonneg) simp
  with err show ?case
    by (simp add: double_sum_snoc dadd_def y_def t_def d_def S_def)
qed


subsection \<open>Helper facts\<close>

lemma loadFromStorage_simps:
  "loadFromStorage Missing d = d"
  "loadFromStorage Malformed d = d"
  "loadFromStorage (Stored v) d = v"
  by (simp_all add: loadFromStorage_def parse_item_def)

lemma double_zero: "double 0 = 0"
  by (simp add: double_def)

lemma foldl_add_sum_list: "foldl (\<lambda>s v. s + f v) a xs = a + sum_list (map f xs)" for a :: int
  by (induction xs arbitrary: a) simp_all

lemma weight_of_sum_list:
  "weight_of b allVotes = sum_list (map voting_power (filter (\<lambda>v. vote v = b) allVotes))"
  by (simp add: weight_of_def foldl_add_sum_list)

lemma weight_of_total:
  "weight_of True allVotes + weight_of False allVotes = sum_list (map voting_power allVotes)"
  by (induction allVotes) (auto simp: weight_of_sum_list)

text \<open>The threshold test on integers: a strict majority of the total.\<close>

lemma is_approved_iff: "is_approved y t \<longleftrightarrow> t > 0 \<and> 2 * y > t"
proof (cases "t > 0")
  case True
  then have "(of_int y / of_int t :: rat) > 1 / 2 \<longleftrightarrow> (of_int t :: rat) < 2 * of_int y"
    by (simp add: field_simps)
  also have "\<dots> \<longleftrightarrow> t < 2 * y"
    by (metis of_int_less_iff of_int_mult of_int_numeral)
  finally show ?thesis using True by (simp add: is_approved_def APPROVAL_THRESHOLD_def)
next
  case False
  then show ?thesis by (simp add: is_approved_def)
qed

subsubsection \<open>What a store request that succeeded has done\<close>

lemma update_status_Inr:
  "update_status db flt m st = Inr (row, db') \<Longrightarrow>
     tbl_votes db' = tbl_votes db \<and> milestone_status db' m = Some st
     \<and> tbl_users db' = tbl_users db \<and> tbl_transactions db' = tbl_transactions db"
  by (auto simp: update_status_def milestone_status_def Let_def update_conv'
      split: option.splits if_splits)

lemma updateMilestoneStatus_Inr:
  "updateMilestoneStatus c db flt (Some m) st = (Inr row, db') \<Longrightarrow>
     tbl_votes db' = tbl_votes db \<and> milestone_status db' m = Some st"
  by (auto simp: updateMilestoneStatus_def split: if_splits sum.splits dest: update_status_Inr)

lemma updateMilestoneStatus_votes:
  "updateMilestoneStatus c db flt mo st = (res, db') \<Longrightarrow> tbl_votes db' = tbl_votes db"
  by (auto simp: updateMilestoneStatus_def split: if_splits sum.splits dest: update_status_Inr)

lemma insert_vote_Inr:
  "insert_vote db flt row = Inr db1 \<Longrightarrow>
     flt = None \<and> db1 = db\<lparr>tbl_votes := tbl_votes db @ [row]\<rparr> \<and> voting_power row \<ge> 1
     \<and> \<not> has_vote db (milestone_id row) (voter_id row)"
  by (auto simp: insert_vote_def split: option.splits if_splits)

text \<open>Every fact about a \<^verbatim>\<open>voteOnMilestone\<close> call that returned.\<close>

lemma voteOnMilestone_Inr:
  assumes "voteOnMilestone c db flts mo vo bo po = (Inr r, db')"
  shows "\<exists>m v b db1.
           mo = Some m \<and> m \<noteq> [] \<and> vo = Some v \<and> v \<noteq> [] \<and> bo = Some b \<and> c = Client
         \<and> voteRecord r = \<lparr>milestone_id = m, voter_id = v, vote = b,
                            voting_power = weight_value (default_weight po)\<rparr>
         \<and> insert_vote db (insert_fault flts) (voteRecord r) = Inr db1
         \<and> select_fault flts = None
         \<and> yesWeight r = weight_of True (votes_for db1 m)
         \<and> noWeight r = weight_of False (votes_for db1 m)
         \<and> total r = yesWeight r + noWeight r
         \<and> milestoneApproved r = is_approved (yesWeight r) (total r)
         \<and> yesPercent r = yes_percent (yesWeight r) (total r)
         \<and> (if milestoneApproved r
             then (\<exists>row. updateMilestoneStatus c db1 (update_fault flts) (Some m) ''approved''
                            = (Inr row, db'))
             else if total r > 0
             then (\<exists>row. updateMilestoneStatus c db1 (update_fault flts) (Some m) ''voting''
                            = (Inr row, db'))
             else db' = db1)"
  using assms
  unfolding voteOnMilestone_def Let_def missing_def select_votes_def votes_for_def
  by (cases c) (auto split: option.splits if_splits sum.splits prod.splits)

lemma votes_for_append:
  "votes_for (db\<lparr>tbl_votes := tbl_votes db @ [row]\<rparr>) m =
     votes_for db m @ (if milestone_id row = m then [row] else [])"
  by (simp add: votes_for_def)

lemma sum_list_ge_length:
  "list_all (\<lambda>r. voting_power r \<ge> 1) xs \<Longrightarrow> sum_list (map voting_power xs) \<ge> int (length xs)"
  for xs :: "vote_row list"
  by (induction xs) auto

text \<open>With the column check on the stored votes, a vote that went through leaves a
  positive total.\<close>

lemma total_positive:
  assumes ok: "voteOnMilestone c db flts mo vo bo po = (Inr r, db')" and chk: "votes_checked db"
  shows "total r > 0"
proof -
  from voteOnMilestone_Inr [OF ok] obtain m v b db1 where
    rec: "voteRecord r = \<lparr>milestone_id = m, voter_id = v, vote = b,
                          voting_power = weight_value (default_weight po)\<rparr>"
    and ins: "insert_vote db (insert_fault flts) (voteRecord r) = Inr db1"
    and y: "yesWeight r = weight_of True (votes_for db1 m)"
    and n: "noWeight r = weight_of False (votes_for db1 m)"
    and t: "total r = yesWeight r + noWeight r"
    by blast
  from insert_vote_Inr [OF ins] have db1: "db1 = db\<lparr>tbl_votes := tbl_votes db @ [voteRecord r]\<rparr>"
    and pw: "voting_power (voteRecord r) \<ge> 1" by simp_all
  have "votes_for db1 m = votes_for db m @ [voteRecord r]"
    using rec by (simp add: db1 votes_for_append)
  moreover have "list_all (\<lambda>r. voting_power r \<ge> 1) (votes_for db m)"
    using chk by (simp add: votes_checked_def votes_for_def list_all_iff)
  ultimately have "list_all (\<lambda>r. voting_power r \<ge> 1) (votes_for db1 m)"
    and "length (votes_for db1 m) > 0"
    using pw by simp_all
  then have "sum_list (map voting_power (votes_for db1 m)) > 0"
    using sum_list_ge_length [of "votes_for db1 m"] by linarith
  then show ?thesis by (simp add: t y n weight_of_total)
qed






subsection \<open>The balance check of castVote\<close>



subsection \<open>The milestone status after a vote\<close>

text \<open>
  Claim C3, as amended. Approval is not latched. On a store whose votes satisfy the
  column check, every \<^verbatim>\<open>voteOnMilestone\<close> call that returns has overwritten the
  milestone's status, whatever it was, with \<^verbatim>\<open>'approved'\<close> when the recomputed
  tally has a strict yes majority (\<open>2 * yesWeight > total\<close>) and with \<^verbatim>\<open>'voting'\<close>
  otherwise.
\<close>

theorem status_follows_recomputed_tally:
  assumes ok: "voteOnMilestone c db flts mo vo bo po = (Inr r, db')" and chk: "votes_checked db"
  shows "milestone_status db' (the mo) =
           Some (if milestoneApproved r then ''approved'' else ''voting'')
         \<and> milestoneApproved r = (2 * yesWeight r > total r)"
proof -
  have pos: "total r > 0" by (rule total_positive [OF ok chk])
  from voteOnMilestone_Inr [OF ok] obtain m db1 where
    mo: "mo = Some m"
    and ap: "milestoneApproved r = is_approved (yesWeight r) (total r)"
    and upd: "if milestoneApproved r
             then (\<exists>row. updateMilestoneStatus c db1 (update_fault flts) (Some m) ''approved''
                            = (Inr row, db'))
             else if total r > 0
             then (\<exists>row. updateMilestoneStatus c db1 (update_fault flts) (Some m) ''voting''
                            = (Inr row, db'))
             else db' = db1"
    by blast
  have "milestone_status db' m = Some (if milestoneApproved r then ''approved'' else ''voting'')"
    using upd pos by (auto split: if_splits dest: updateMilestoneStatus_Inr)
  moreover have "milestoneApproved r = (2 * yesWeight r > total r)"
    using pos by (simp add: ap is_approved_iff)
  ultimately show ?thesis by (simp add: mo)
qed

theorem status_follows_recomputed_tally_witness:
  "voteOnMilestone Client db_yes no_faults (Some ''m1'') (Some ''bob'') (Some False) (Weight 1) =
     (Inr \<lparr>voteRecord = \<lparr>milestone_id = ''m1'', voter_id = ''bob'', vote = False,
                          voting_power = 1\<rparr>,
            milestoneApproved = False, yesPercent = 50, yesWeight = 1, noWeight = 1,
            total = 2\<rparr>,
      db_yes_no)
   \<and> votes_checked db_yes
   \<and> milestone_status db_yes_no ''m1'' = Some ''voting''"
proof -
  have h1: "voteOnMilestone Client db_yes no_faults (Some ''m1'') (Some ''bob'') (Some False)
       (Weight 1) =
     (Inr \<lparr>voteRecord = \<lparr>milestone_id = ''m1'', voter_id = ''bob'', vote = False,
                          voting_power = 1\<rparr>,
            milestoneApproved = False, yesPercent = 50, yesWeight = 1, noWeight = 1,
            total = 2\<rparr>,
      db_yes_no)"
    by code_simp
  have h2: "votes_checked db_yes" by code_simp
  from status_follows_recomputed_tally [OF h1 h2] h1 h2 show ?thesis by simp
qed

text \<open>
  The claim as stated fails: alice's YES with weight 1 approves the pending milestone
  \<open>m1\<close>; bob's NO with weight 1 is then accepted, makes the tally 1 to 1, and writes the
  status \<^verbatim>\<open>'voting'\<close> over \<^verbatim>\<open>'approved'\<close>.
\<close>

theorem approval_reverts_counterexample:
  "fst (voteOnMilestone Client db0 no_faults (Some ''m1'') (Some ''alice'') (Some True)
          (Weight 1)) =
     Inr \<lparr>voteRecord = \<lparr>milestone_id = ''m1'', voter_id = ''alice'', vote = True,
                         voting_power = 1\<rparr>,
           milestoneApproved = True, yesPercent = 100, yesWeight = 1, noWeight = 0, total = 1\<rparr>
   \<and> db_yes = snd (voteOnMilestone Client db0 no_faults (Some ''m1'') (Some ''alice'') (Some True)
                     (Weight 1))
   \<and> milestone_status db_yes ''m1'' = Some ''approved''
   \<and> fst (voteOnMilestone Client db_yes no_faults (Some ''m1'') (Some ''bob'') (Some False)
            (Weight 1)) =
     Inr \<lparr>voteRecord = \<lparr>milestone_id = ''m1'', voter_id = ''bob'', vote = False,
                         voting_power = 1\<rparr>,
           milestoneApproved = False, yesPercent = 50, yesWeight = 1, noWeight = 1, total = 2\<rparr>
   \<and> db_yes_no = snd (voteOnMilestone Client db_yes no_faults (Some ''m1'') (Some ''bob'')
                        (Some False) (Weight 1))
   \<and> milestone_status db_yes_no ''m1'' = Some ''voting''"
  by code_simp

subsection \<open>One vote per milestone and voter\<close>

lemma has_vote_iff:
  "has_vote db m v \<longleftrightarrow> (m, v) \<in> set (map (\<lambda>r. (milestone_id r, voter_id r)) (tbl_votes db))"
  by (auto simp: has_vote_def list_ex_iff)

lemma insert_vote_duplicate:
  "has_vote db (milestone_id row) (voter_id row) \<Longrightarrow> \<exists>e. insert_vote db flt row = Inl e"
  by (auto simp: insert_vote_def split: option.splits)

lemma insert_vote_duplicate_code:
  "has_vote db (milestone_id row) (voter_id row) \<Longrightarrow> voting_power row \<ge> 1 \<Longrightarrow>
     in_int4 (voting_power row) \<Longrightarrow> insert_vote db None row = Inl unique_violation"
  by (auto simp: insert_vote_def)

lemma voteOnMilestone_duplicate:
  assumes "has_vote db m v"
  shows "\<exists>e. voteOnMilestone c db flts (Some m) (Some v) bo po = (Inl e, db)"
proof -
  let ?row = "\<lparr>milestone_id = m, voter_id = v, vote = the bo,
               voting_power = weight_value (default_weight po)\<rparr>"
  from assms obtain e where "insert_vote db (insert_fault flts) ?row = Inl e"
    using insert_vote_duplicate [of db ?row] by auto
  then show ?thesis
    by (simp add: voteOnMilestone_def Let_def)
qed

lemma valid_weight_cases:
  "valid_weight po \<Longrightarrow>
     \<not> weight_below_one (default_weight po) \<and> 1 \<le> weight_value (default_weight po)
     \<and> in_int4 (weight_value (default_weight po))"
  by (cases po)
    (simp_all add: valid_weight_def weight_below_one_def default_weight_def weight_value_def
      in_int4_def)

lemma voteOnMilestone_DuplicateVote:
  assumes "has_vote db m v" "m \<noteq> []" "v \<noteq> []" "bo \<noteq> None" "valid_weight po"
    "insert_fault flts = None"
  shows "voteOnMilestone Client db flts (Some m) (Some v) bo po = (Inl DuplicateVote, db)"
proof -
  let ?row = "\<lparr>milestone_id = m, voter_id = v, vote = the bo,
               voting_power = weight_value (default_weight po)\<rparr>"
  note vw = valid_weight_cases [OF assms(5)]
  have "insert_vote db None ?row = Inl unique_violation"
    using assms(1) vw by (intro insert_vote_duplicate_code) simp_all
  then show ?thesis
    using assms vw by (simp add: voteOnMilestone_def Let_def missing_def unique_violation_def)
qed

lemma voteOnMilestone_InvalidWeight:
  assumes "m \<noteq> []" "v \<noteq> []" "bo \<noteq> None" "po = NullWeight \<or> (\<exists>n. po = Weight n \<and> n < 1)"
  shows "voteOnMilestone c db flts (Some m) (Some v) bo po = (Inl InvalidWeight, db)"
  using assms
  by (auto simp: voteOnMilestone_def Let_def missing_def default_weight_def weight_below_one_def)

lemma voteOnMilestone_out_of_range:
  assumes "m \<noteq> []" "v \<noteq> []" "bo \<noteq> None" "n > 2147483647" "insert_fault flts = None"
  shows "voteOnMilestone Client db flts (Some m) (Some v) bo (Weight n) =
           (Inl (StoreError (message integer_out_of_range)), db)"
  using assms
  by (auto simp: voteOnMilestone_def Let_def missing_def default_weight_def weight_below_one_def
      weight_value_def insert_vote_def in_int4_def integer_out_of_range_def)

text \<open>The votes table after any call: as before, or one new row for a pair not yet there.\<close>

lemma voteOnMilestone_votes:
  assumes "voteOnMilestone c db flts mo vo bo po = (res, db')"
  shows "tbl_votes db' = tbl_votes db
       \<or> (\<exists>row. tbl_votes db' = tbl_votes db @ [row]
              \<and> \<not> has_vote db (milestone_id row) (voter_id row)
              \<and> mo = Some (milestone_id row) \<and> vo = Some (voter_id row))"
  using assms
  unfolding voteOnMilestone_def Let_def missing_def
  by (auto split: if_splits sum.splits prod.splits option.splits
      dest!: insert_vote_Inr updateMilestoneStatus_votes)

lemma voteOnMilestone_unique:
  assumes "votes_unique db" "voteOnMilestone c db flts mo vo bo po = (res, db')"
  shows "votes_unique db'"
  using voteOnMilestone_votes [OF assms(2)] assms(1)
  by (auto simp: votes_unique_def has_vote_iff)

lemma voteOnMilestone_recorded:
  assumes "voteOnMilestone c db flts (Some m) (Some v) bo po = (Inr r, db')"
  shows "has_vote db' m v"
proof -
  from voteOnMilestone_Inr [OF assms] obtain db1 where
    rec: "milestone_id (voteRecord r) = m" "voter_id (voteRecord r) = v"
    and ins: "insert_vote db (insert_fault flts) (voteRecord r) = Inr db1"
    and upd: "if milestoneApproved r
             then (\<exists>row. updateMilestoneStatus c db1 (update_fault flts) (Some m) ''approved''
                            = (Inr row, db'))
             else if total r > 0
             then (\<exists>row. updateMilestoneStatus c db1 (update_fault flts) (Some m) ''voting''
                            = (Inr row, db'))
             else db' = db1"
    by auto
  have "tbl_votes db' = tbl_votes db1"
    using upd by (auto split: if_splits dest: updateMilestoneStatus_votes)
  moreover have "tbl_votes db1 = tbl_votes db @ [voteRecord r]"
    using insert_vote_Inr [OF ins] by simp
  ultimately show ?thesis using rec by (simp add: has_vote_def)
qed

lemma castVoteDB_storage:
  "castVoteDB c st flts uo mo bo po = (res, st') \<Longrightarrow> app_storage st' = app_storage st"
  by (auto simp: castVoteDB_def Let_def split: option.splits prod.splits)

lemma castVoteDB_duplicate:
  assumes "has_vote (app_db st) m v"
  shows "\<exists>e. castVoteDB c st flts (Some v) (Some m) bo po = (Inl e, st)"
  using voteOnMilestone_duplicate [OF assms, of c flts bo "default_weight po"]
  by (auto simp: castVoteDB_def Let_def)

text \<open>
  Claim C1, as amended. On the database path at most one vote per (milestone, voter) is
  recorded. A \<^verbatim>\<open>voteOnMilestone\<close> call for a pair that already has a vote fails and
  returns the store as it was, whatever the client, its other arguments and the
  requests' faults. The error is \<open>DuplicateVote\<close> when the client is configured, the
  ids are present, the vote is a boolean, the weight is left out or an integer from 1
  to 2147483647, and the insert request reaches the store; it is \<open>InvalidWeight\<close>
  when the weight is \<^verbatim>\<open>null\<close> or below 1, and the store's range error when the
  weight is beyond 2147483647. A call that returns has recorded the pair, and every
  call keeps the pairs of the votes table distinct. Through the hook
  \<^verbatim>\<open>castVoteDB\<close> the rejected call leaves the whole application state as it was,
  and no call of the hook changes the localStorage token balance.
\<close>

theorem second_vote_rejected:
  "(has_vote db m v \<longrightarrow> (\<exists>e. voteOnMilestone c db flts (Some m) (Some v) bo po = (Inl e, db)))
   \<and> (has_vote db m v \<and> m \<noteq> [] \<and> v \<noteq> [] \<and> bo \<noteq> None \<and> valid_weight po
        \<and> insert_fault flts = None \<longrightarrow>
        voteOnMilestone Client db flts (Some m) (Some v) bo po = (Inl DuplicateVote, db))
   \<and> (m \<noteq> [] \<and> v \<noteq> [] \<and> bo \<noteq> None \<and> (po = NullWeight \<or> (\<exists>n. po = Weight n \<and> n < 1)) \<longrightarrow>
        voteOnMilestone c db flts (Some m) (Some v) bo po = (Inl InvalidWeight, db))
   \<and> (m \<noteq> [] \<and> v \<noteq> [] \<and> bo \<noteq> None \<and> k > 2147483647 \<and> insert_fault flts = None \<longrightarrow>
        voteOnMilestone Client db flts (Some m) (Some v) bo (Weight k) =
          (Inl (StoreError (message integer_out_of_range)), db))
   \<and> (voteOnMilestone c db flts (Some m) (Some v) bo po = (Inr r, db') \<longrightarrow> has_vote db' m v)
   \<and> (votes_unique db \<and> voteOnMilestone c db flts mo vo bo po = (res, db') \<longrightarrow> votes_unique db')
   \<and> (has_vote (app_db st) m v \<longrightarrow>
        (\<exists>e. castVoteDB c st flts (Some v) (Some m) bo po = (Inl e, st)))
   \<and> (castVoteDB c st flts uo mo bo po = (res', st') \<longrightarrow>
        getTokenBalance (app_storage st') = getTokenBalance (app_storage st))"
  using voteOnMilestone_duplicate [of db m v c flts bo po]
    voteOnMilestone_DuplicateVote [of db m v bo po flts]
    voteOnMilestone_InvalidWeight [of m v bo po c db flts]
    voteOnMilestone_out_of_range [of m v bo k flts db]
    voteOnMilestone_recorded [of c db flts m v bo po r db']
    voteOnMilestone_unique [of db c flts mo vo bo po res db']
    castVoteDB_duplicate [of st m v c flts bo po]
    castVoteDB_storage [of c st flts uo mo bo po res' st']
  by (intro conjI impI) simp_all

theorem second_vote_rejected_witness:
  "has_vote db_yes ''m1'' ''alice''
   \<and> voteOnMilestone Client db_yes no_faults (Some ''m1'') (Some ''alice'') (Some False)
       (Weight 5) = (Inl DuplicateVote, db_yes)
   \<and> voteOnMilestone Client db_yes no_faults (Some ''m1'') (Some ''alice'') (Some False)
       Omitted = (Inl DuplicateVote, db_yes)
   \<and> voteOnMilestone Client db_yes no_faults (Some ''m1'') (Some ''alice'') (Some False)
       NullWeight = (Inl InvalidWeight, db_yes)
   \<and> voteOnMilestone Client db_yes no_faults (Some ''m1'') (Some ''alice'') (Some False)
       (Weight 2147483648) = (Inl (StoreError (message integer_out_of_range)), db_yes)
   \<and> voteOnMilestone Client db0 no_faults (Some ''m1'') (Some ''alice'') (Some True) (Weight 1) =
       (Inr \<lparr>voteRecord = \<lparr>milestone_id = ''m1'', voter_id = ''alice'', vote = True,
                            voting_power = 1\<rparr>,
              milestoneApproved = True, yesPercent = 100, yesWeight = 1, noWeight = 0,
              total = 1\<rparr>, db_yes)
   \<and> votes_unique db0 \<and> votes_unique db_yes
   \<and> has_vote (app_db st_yes) ''m1'' ''alice''
   \<and> castVoteDB Client st_yes no_faults (Some ''alice'') (Some ''m1'') (Some False) (Weight 5) =
       (Inl DuplicateVote, st_yes)
   \<and> getTokenBalance (app_storage st_yes) = 50"
proof -
  let ?r = "\<lparr>voteRecord = \<lparr>milestone_id = ''m1'', voter_id = ''alice'', vote = True,
                            voting_power = 1\<rparr>,
              milestoneApproved = True, yesPercent = 100, yesWeight = 1, noWeight = 0,
              total = 1\<rparr>"
  note inst = second_vote_rejected [where db = db_yes and m = "''m1''" and v = "''alice''"
        and bo = "Some False" and flts = no_faults and c = Client]
  have h0: "voteOnMilestone Client db0 no_faults (Some ''m1'') (Some ''alice'') (Some True)
      (Weight 1) = (Inr ?r, db_yes)"
    by code_simp
  have u0: "votes_unique db0" by code_simp
  have hv: "has_vote db_yes ''m1'' ''alice''"
    using second_vote_rejected [THEN conjunct2, THEN conjunct2, THEN conjunct2, THEN conjunct2,
        THEN conjunct1, rule_format, OF h0] .
  have uy: "votes_unique db_yes"
    using second_vote_rejected [THEN conjunct2, THEN conjunct2, THEN conjunct2, THEN conjunct2,
        THEN conjunct2, THEN conjunct1, rule_format, OF conjI [OF u0 h0]] .
  have nf: "insert_fault no_faults = None" by (simp add: no_faults_def)
  have d: "voteOnMilestone Client db_yes no_faults (Some ''m1'') (Some ''alice'') (Some False)
      (Weight 5) = (Inl DuplicateVote, db_yes)"
    using inst [where po = "Weight 5", THEN conjunct2, THEN conjunct1] hv nf
    by (simp add: valid_weight_def in_int4_def)
  have d': "voteOnMilestone Client db_yes no_faults (Some ''m1'') (Some ''alice'') (Some False)
      Omitted = (Inl DuplicateVote, db_yes)"
    using inst [where po = Omitted, THEN conjunct2, THEN conjunct1] hv nf
    by (simp add: valid_weight_def)
  have n: "voteOnMilestone Client db_yes no_faults (Some ''m1'') (Some ''alice'') (Some False)
      NullWeight = (Inl InvalidWeight, db_yes)"
    using inst [where po = NullWeight, THEN conjunct2, THEN conjunct2, THEN conjunct1] by simp
  have o: "voteOnMilestone Client db_yes no_faults (Some ''m1'') (Some ''alice'') (Some False)
      (Weight 2147483648) = (Inl (StoreError (message integer_out_of_range)), db_yes)"
    using inst [where k = 2147483648, THEN conjunct2, THEN conjunct2, THEN conjunct2,
        THEN conjunct1] nf by simp
  have hs: "has_vote (app_db st_yes) ''m1'' ''alice''" using hv by (simp add: st_yes_def)
  have c: "castVoteDB Client st_yes no_faults (Some ''alice'') (Some ''m1'') (Some False)
      (Weight 5) = (Inl DuplicateVote, st_yes)"
    using d by (simp add: castVoteDB_def st_yes_def default_weight_def)
  have b: "getTokenBalance (app_storage st_yes) = 50"
    by (simp add: st_yes_def ls50_def getTokenBalance_def loadFromStorage_simps)
  from hv d d' n o h0 u0 uy hs c b show ?thesis by blast
qed

text \<open>
  The claim as stated fails for the function it names: \<^verbatim>\<open>castVote\<close> of
  \<^verbatim>\<open>milestoneContract.js\<close> has no voter argument and records no votes, only the
  tally. With 50 tokens, a YES with one token on \<open>m1\<close> is accepted, and so is a second
  one by the same browser profile: the tally is 2 to 0 and 48 tokens remain.
\<close>

theorem repeated_castVote_counterexample:
  "fst (castVote ls50 ''m1'' YES 1) =
     Inr \<lparr>cr_votes = \<lparr>yes = Num 1, no = Num 0\<rparr>, cr_tokenBalance = 49, cr_isApproved = True,
          cr_yesPercent = 100\<rparr>
   \<and> fst (castVote (snd (castVote ls50 ''m1'' YES 1)) ''m1'' YES 1) =
     Inr \<lparr>cr_votes = \<lparr>yes = Num 2, no = Num 0\<rparr>, cr_tokenBalance = 48, cr_isApproved = True,
          cr_yesPercent = 100\<rparr>
   \<and> getTokenBalance (snd (castVote ls50 ''m1'' YES 1)) = 49
   \<and> getTokenBalance (snd (castVote (snd (castVote ls50 ''m1'' YES 1)) ''m1'' YES 1)) = 48"
  by code_simp

subsection \<open>Spending tokens and recording a vote\<close>




subsection \<open>hasUserVoted\<close>

text \<open>
  Claim C9, as amended. \<^verbatim>\<open>hasUserVoted\<close> never changes the store. Whatever the
  client, it returns \<open>False\<close> whenever \<^verbatim>\<open>milestoneId\<close> or \<^verbatim>\<open>voterId\<close> is missing
  (\<^verbatim>\<open>undefined\<close>, \<^verbatim>\<open>null\<close> or empty). With a configured client it returns
  \<open>False\<close> whenever the read returns an error, and otherwise tells whether the votes
  table has a vote of that voter on that milestone. With both ids present and no
  configured client it does not return: the call raises an error.
\<close>

theorem hasUserVoted_safe_default:
  "snd (hasUserVoted c db flt milestoneId voterId) = db
   \<and> (missing milestoneId \<or> missing voterId \<longrightarrow>
        hasUserVoted c db flt milestoneId voterId = (Inr False, db))
   \<and> (flt \<noteq> None \<longrightarrow> hasUserVoted Client db flt milestoneId voterId = (Inr False, db))
   \<and> (\<not> missing milestoneId \<and> \<not> missing voterId \<longrightarrow>
        hasUserVoted Client db None milestoneId voterId =
          (Inr (has_vote db (the milestoneId) (the voterId)), db))
   \<and> (\<not> missing milestoneId \<and> \<not> missing voterId \<longrightarrow>
        (\<exists>e. hasUserVoted NullClient db flt milestoneId voterId = (Inl e, db)))"
  by (auto simp: hasUserVoted_def count_votes_def has_vote_def list_ex_iff filter_empty_conv
      split: option.splits)

theorem hasUserVoted_safe_default_witness:
  "missing None \<and> hasUserVoted NullClient db_yes None None (Some ''alice'') = (Inr False, db_yes)
   \<and> missing (Some '''')
   \<and> hasUserVoted Client db_yes None (Some ''m1'') (Some '''') = (Inr False, db_yes)
   \<and> Some \<lparr>code = ''500'', message = ''fetch failed''\<rparr> \<noteq> None
   \<and> hasUserVoted Client db_yes (Some \<lparr>code = ''500'', message = ''fetch failed''\<rparr>)
        (Some ''m1'') (Some ''alice'') = (Inr False, db_yes)
   \<and> \<not> missing (Some ''m1'') \<and> \<not> missing (Some ''alice'')
   \<and> hasUserVoted Client db_yes None (Some ''m1'') (Some ''alice'') = (Inr True, db_yes)
   \<and> hasUserVoted Client db_yes None (Some ''m1'') (Some ''bob'') = (Inr False, db_yes)
   \<and> (\<exists>e. hasUserVoted NullClient db_yes None (Some ''m1'') (Some ''alice'') = (Inl e, db_yes))"
proof -
  have hv: "has_vote db_yes ''m1'' ''alice''" "\<not> has_vote db_yes ''m1'' ''bob''"
    by code_simp+
  show ?thesis
    using hasUserVoted_safe_default [where db = db_yes and flt = None and milestoneId = None
        and voterId = "Some ''alice''" and c = NullClient]
      hasUserVoted_safe_default [where db = db_yes and flt = None and milestoneId = "Some ''m1''"
        and voterId = "Some ''''" and c = Client]
      hasUserVoted_safe_default [where db = db_yes
        and flt = "Some \<lparr>code = ''500'', message = ''fetch failed''\<rparr>"
        and milestoneId = "Some ''m1''" and voterId = "Some ''alice''"]
      hasUserVoted_safe_default [where db = db_yes and milestoneId = "Some ''m1''"
        and voterId = "Some ''alice''" and flt = None]
      hasUserVoted_safe_default [where db = db_yes and milestoneId = "Some ''m1''"
        and voterId = "Some ''bob''"]
      hv
    by (simp add: missing_def)
qed

text \<open>
  The claim as stated fails: when the two environment variables are not set,
  \<^verbatim>\<open>supabase\<close> is \<^verbatim>\<open>null\<close>, and \<^verbatim>\<open>hasUserVoted\<close> with both ids present raises a
  \<^verbatim>\<open>TypeError\<close> where the claim has it return \<open>False\<close>.
\<close>

theorem hasUserVoted_null_client_counterexample:
  "hasUserVoted NullClient db_yes None (Some ''m1'') (Some ''alice'') = (Inl TypeError, db_yes)"
  by (simp add: hasUserVoted_def missing_def)

subsection \<open>The getters\<close>

text \<open>
  Claim C10. \<^verbatim>\<open>getTokenBalance\<close> and \<^verbatim>\<open>getLockedAmount\<close> return 0 when their key
  is absent or does not parse: the exception of \<^verbatim>\<open>JSON.parse\<close> is caught in
  \<^verbatim>\<open>loadFromStorage\<close>. For a milestone id that is no own property of the stored
  votes object (also when the votes key is absent or does not parse),
  \<^verbatim>\<open>getMilestoneVotes\<close> returns the zero tally \<^verbatim>\<open>{ yes: 0, no: 0 }\<close> when the id is
  not the name of a member of \<^verbatim>\<open>Object.prototype\<close>; when it is, the function returns
  that member, not a tally.
\<close>

theorem getters_defaults_and_prototype_members:
  "(tokenBalance ls = Missing \<or> tokenBalance ls = Malformed \<longrightarrow> getTokenBalance ls = 0)
   \<and> (lockedAmount ls = Missing \<or> lockedAmount ls = Malformed \<longrightarrow> getLockedAmount ls = 0)
   \<and> (parse_item (tokenBalance ls) 0 = Inl SyntaxError \<longrightarrow> getTokenBalance ls = 0)
   \<and> (map_of (getAllVotes ls) milestoneId = None
        \<and> \<not> List.member Object_prototype_names milestoneId \<longrightarrow>
        getMilestoneVotes ls milestoneId = TallyValue \<lparr>yes = Num 0, no = Num 0\<rparr>)
   \<and> (map_of (getAllVotes ls) milestoneId = None
        \<and> List.member Object_prototype_names milestoneId \<longrightarrow>
        getMilestoneVotes ls milestoneId = PrototypeMember milestoneId)"
  by (auto simp: getMilestoneVotes_def getTokenBalance_def getLockedAmount_def getAllVotes_def
      votes_or_zero_def js_get_def zero_tally_def loadFromStorage_def parse_item_def double_zero)

theorem getters_defaults_and_prototype_members_witness:
  "tokenBalance ls_empty = Missing \<and> getTokenBalance ls_empty = 0
   \<and> tokenBalance ls_broken = Malformed \<and> getTokenBalance ls_broken = 0
   \<and> lockedAmount ls_empty = Missing \<and> getLockedAmount ls_empty = 0
   \<and> lockedAmount ls_broken = Malformed \<and> getLockedAmount ls_broken = 0
   \<and> parse_item (tokenBalance ls_broken) 0 = Inl SyntaxError
   \<and> map_of (getAllVotes ls_3_0) ''m2'' = None
   \<and> \<not> List.member Object_prototype_names ''m2''
   \<and> getMilestoneVotes ls_3_0 ''m2'' = TallyValue \<lparr>yes = Num 0, no = Num 0\<rparr>
   \<and> getMilestoneVotes ls_broken ''m2'' = TallyValue \<lparr>yes = Num 0, no = Num 0\<rparr>
   \<and> map_of (getAllVotes ls_empty) ''constructor'' = None
   \<and> List.member Object_prototype_names ''constructor''
   \<and> getMilestoneVotes ls_empty ''constructor'' = PrototypeMember ''constructor''"
proof -
  have a: "map_of (getAllVotes ls_3_0) ''m2'' = None" "\<not> List.member Object_prototype_names ''m2''"
    "map_of (getAllVotes ls_broken) ''m2'' = None"
    "map_of (getAllVotes ls_empty) ''constructor'' = None"
    "List.member Object_prototype_names ''constructor''"
    by code_simp+
  show ?thesis
    using getters_defaults_and_prototype_members [where ls = ls_3_0 and milestoneId = "''m2''"]
      getters_defaults_and_prototype_members [where ls = ls_broken and milestoneId = "''m2''"]
      getters_defaults_and_prototype_members [where ls = ls_empty
        and milestoneId = "''constructor''"]
      a
    by (simp add: ls_empty_def ls_broken_def parse_item_def)
qed

end
